theory Spec2Isabelle
  imports Main "HOL-Library.Word"
begin

section \<open>Go values: errors, panics, outcomes\<close>

text \<open>
  A Go \<open>error\<close> value. \<open>ENOENT\<close> is the "no such file or directory" system error as the
  \<open>os\<close> package returns it; \<open>Wrap\<close> is \<open>fmt.Errorf("...: %w", err)\<close>; \<open>Msg\<close> is an
  error made from text alone; \<open>SysErr\<close> is any other system error.
\<close>

datatype error =
    ENOENT
  | SysErr string
  | Msg string
  | Wrap string error

text \<open>
  What a call does: it returns a value, returns an error, or panics (a nil-pointer
  dereference unwinds every caller, so it is kept apart from an error return).
\<close>

datatype 'a outcome = Ok 'a | Err error | Panic

text \<open>\<open>os.IsNotExist\<close> looks at the error itself; \<open>errors.Is(err, os.ErrNotExist)\<close> unwraps.\<close>

fun os_IsNotExist :: "error \<Rightarrow> bool" where
  "os_IsNotExist ENOENT = True"
| "os_IsNotExist _ = False"

fun errors_Is_ErrNotExist :: "error \<Rightarrow> bool" where
  "errors_Is_ErrNotExist ENOENT = True"
| "errors_Is_ErrNotExist (Wrap _ e) = errors_Is_ErrNotExist e"
| "errors_Is_ErrNotExist _ = False"

section \<open>Strings\<close>

definition is_space :: "char \<Rightarrow> bool" where
  "is_space c = (c = CHR '' '' \<or> c = CHR 0x09 \<or> c = CHR 0x0A \<or> c = CHR 0x0B
                 \<or> c = CHR 0x0C \<or> c = CHR 0x0D)"

definition strings_TrimSpace :: "string \<Rightarrow> string" where
  "strings_TrimSpace s = rev (dropWhile is_space (rev (dropWhile is_space s)))"

text \<open>\<open>strings.Split(s, sep)\<close> for a separator of one character.\<close>

fun strings_Split :: "string \<Rightarrow> char \<Rightarrow> string list" where
  "strings_Split [] c = [[]]"
| "strings_Split (x # xs) c =
     (if x = c then [] # strings_Split xs c
      else (case strings_Split xs c of
              [] \<Rightarrow> [[x]]
            | y # ys \<Rightarrow> (x # y) # ys))"

fun has_prefix :: "string \<Rightarrow> string \<Rightarrow> bool" where
  "has_prefix s [] = True"
| "has_prefix [] (p # ps) = False"
| "has_prefix (x # xs) (p # ps) = (x = p \<and> has_prefix xs ps)"

fun strings_Contains :: "string \<Rightarrow> string \<Rightarrow> bool" where
  "strings_Contains [] sub = (sub = [])"
| "strings_Contains (x # xs) sub = (has_prefix (x # xs) sub \<or> strings_Contains xs sub)"

text \<open>\<open>strings.Fields\<close>: the maximal runs of non-space characters.\<close>

fun fields_from :: "string \<Rightarrow> string \<Rightarrow> string list" where
  "fields_from cur [] = (if cur = [] then [] else [cur])"
| "fields_from cur (x # xs) =
     (if is_space x then (if cur = [] then fields_from [] xs else cur # fields_from [] xs)
      else fields_from (cur @ [x]) xs)"

definition strings_Fields :: "string \<Rightarrow> string list" where
  "strings_Fields s = fields_from [] s"

subsection \<open>Decimal numbers: \<open>strconv.Itoa\<close>, \<open>strconv.Atoi\<close>\<close>

definition digit_char :: "nat \<Rightarrow> char" where
  "digit_char d = ''0123456789'' ! d"

fun digits :: "nat \<Rightarrow> string" where
  "digits n = (if n < 10 then [digit_char n] else digits (n div 10) @ [digit_char (n mod 10)])"

declare digits.simps [simp del]

definition strconv_Itoa :: "int \<Rightarrow> string" where
  "strconv_Itoa i = (if i < 0 then CHR ''-'' # digits (nat (- i)) else digits (nat i))"

definition is_digit :: "char \<Rightarrow> bool" where
  "is_digit c = (c \<in> set ''0123456789'')"

definition digit_val :: "char \<Rightarrow> nat" where
  "digit_val c = of_char c - 48"

definition digits_val :: "string \<Rightarrow> nat" where
  "digits_val s = foldl (\<lambda>acc c. acc * 10 + digit_val c) 0 s"

text \<open>
  \<open>strconv.Atoi\<close>: an optional sign, then one or more decimal digits; a value outside
  the 64-bit \<open>int\<close> is a range error.
\<close>

definition atoi_unsigned :: "string \<Rightarrow> string \<Rightarrow> bool \<Rightarrow> int outcome" where
  "atoi_unsigned orig s neg =
     (if s = [] \<or> \<not> list_all is_digit s then Err (Msg (''strconv.Atoi: parsing '' @ orig @ '': invalid syntax''))
      else (let v = (if neg then - int (digits_val s) else int (digits_val s))
            in if v < - (2 ^ 63) \<or> 2 ^ 63 \<le> v
               then Err (Msg (''strconv.Atoi: parsing '' @ orig @ '': value out of range''))
               else Ok v))"

definition strconv_Atoi :: "string \<Rightarrow> int outcome" where
  "strconv_Atoi s =
     (case s of
        [] \<Rightarrow> atoi_unsigned s s False
      | c # rest \<Rightarrow>
          if c = CHR ''+'' then atoi_unsigned s rest False
          else if c = CHR ''-'' then atoi_unsigned s rest True
          else atoi_unsigned s s False)"

section \<open>The CPUSet value type (\<open>k8s.io/.../cpuset\<close>)\<close>

text \<open>
  A \<open>cpuset.CPUSet\<close> is a set of \<open>int\<close>; it is represented by the ascending list of its
  elements without repetition, which is what \<open>List()\<close> returns.
\<close>

type_synonym CPUSet = "int list"

definition NewCPUSet :: "int list \<Rightarrow> CPUSet" where
  "NewCPUSet xs = sort (remdups xs)"

definition cpuset_Union :: "CPUSet \<Rightarrow> CPUSet \<Rightarrow> CPUSet" where
  "cpuset_Union a b = NewCPUSet (a @ b)"

definition cpuset_Difference :: "CPUSet \<Rightarrow> CPUSet \<Rightarrow> CPUSet" where
  "cpuset_Difference a b = filter (\<lambda>x. x \<notin> set b) a"

definition cpuset_Size :: "CPUSet \<Rightarrow> int" where
  "cpuset_Size a = int (length a)"

definition cpuset_List :: "CPUSet \<Rightarrow> int list" where
  "cpuset_List a = a"

text \<open>\<open>strings.SplitN(r, "-", 2)\<close>: cut at the first dash, if there is one.\<close>

definition split_first_dash :: "string \<Rightarrow> string list" where
  "split_first_dash r =
     (case dropWhile (\<lambda>c. c \<noteq> CHR ''-'') r of
        [] \<Rightarrow> [r]
      | _ # rest \<Rightarrow> [takeWhile (\<lambda>c. c \<noteq> CHR ''-'') r, rest])"

definition parse_range :: "string \<Rightarrow> int list outcome" where
  "parse_range r =
     (case split_first_dash r of
        [a] \<Rightarrow> (case strconv_Atoi a of
                  Ok e \<Rightarrow> Ok [e]
                | Err x \<Rightarrow> Err x
                | Panic \<Rightarrow> Panic)
      | [a, b] \<Rightarrow>
          (case strconv_Atoi a of
             Ok start \<Rightarrow>
               (case strconv_Atoi b of
                  Ok end \<Rightarrow>
                    if start > end then Err (Msg (''invalid range '' @ r))
                    else Ok [start ..  end]
                | Err x \<Rightarrow> Err x
                | Panic \<Rightarrow> Panic)
           | Err x \<Rightarrow> Err x
           | Panic \<Rightarrow> Panic)
      | _ \<Rightarrow> Ok [])"

fun parse_ranges :: "string list \<Rightarrow> int list \<Rightarrow> int list outcome" where
  "parse_ranges [] acc = Ok acc"
| "parse_ranges (r # rs) acc =
     (case parse_range r of
        Ok es \<Rightarrow> parse_ranges rs (acc @ es)
      | Err x \<Rightarrow> Err x
      | Panic \<Rightarrow> Panic)"

definition cpuset_Parse :: "string \<Rightarrow> CPUSet outcome" where
  "cpuset_Parse s =
     (if s = [] then Ok []
      else (case parse_ranges (strings_Split s (CHR '','')) [] of
              Ok es \<Rightarrow> Ok (NewCPUSet es)
            | Err x \<Rightarrow> Err x
            | Panic \<Rightarrow> Panic))"

text \<open>\<open>String()\<close>: runs of consecutive elements as \<open>a-b\<close>, single elements as \<open>a\<close>.\<close>

fun ranges_of :: "int \<Rightarrow> int \<Rightarrow> int list \<Rightarrow> (int \<times> int) list" where
  "ranges_of start end [] = [(start, end)]"
| "ranges_of start end (e # es) =
     (if e = end + 1 then ranges_of start e es
      else (start, end) # ranges_of e e es)"

definition range_str :: "int \<times> int \<Rightarrow> string" where
  "range_str r =
     (if fst r = snd r then strconv_Itoa (fst r)
      else strconv_Itoa (fst r) @ ''-'' @ strconv_Itoa (snd r))"

fun join_comma :: "string list \<Rightarrow> string" where
  "join_comma [] = []"
| "join_comma [s] = s"
| "join_comma (s # t # ss) = s @ '','' @ join_comma (t # ss)"

definition cpuset_String :: "CPUSet \<Rightarrow> string" where
  "cpuset_String a =
     (case cpuset_List a of
        [] \<Rightarrow> []
      | e # es \<Rightarrow> join_comma (map range_str (ranges_of e e es)))"

section \<open>Paths\<close>

text \<open>
  \<open>path.Clean\<close> (and \<open>filepath.Clean\<close> on Linux): empty elements and \<open>.\<close> are
  dropped, \<open>..\<close> removes the element before it, a \<open>..\<close> at the root of a rooted path is
  dropped and one at the start of a relative path is kept. \<open>clean_elems\<close> keeps the
  elements written so far in reverse.
\<close>

fun clean_elems :: "bool \<Rightarrow> string list \<Rightarrow> string list \<Rightarrow> string list" where
  "clean_elems rooted acc [] = rev acc"
| "clean_elems rooted acc (e # es) =
     (if e = [] \<or> e = ''.'' then clean_elems rooted acc es
      else if e = ''..'' then
        (case acc of
           [] \<Rightarrow> if rooted then clean_elems rooted [] es else clean_elems rooted [''..''] es
         | a # as \<Rightarrow> if a = ''..'' then clean_elems rooted (''..'' # acc) es
                     else clean_elems rooted as es)
      else clean_elems rooted (e # acc) es)"

fun join_slash :: "string list \<Rightarrow> string" where
  "join_slash [] = []"
| "join_slash [s] = s"
| "join_slash (s # t # ss) = s @ ''/'' @ join_slash (t # ss)"

definition path_Clean :: "string \<Rightarrow> string" where
  "path_Clean p =
     (case p of
        [] \<Rightarrow> ''.''
      | c # _ \<Rightarrow>
          (let rooted = (c = CHR ''/'');
               es = clean_elems rooted [] (strings_Split p (CHR ''/''))
           in if rooted then CHR ''/'' # join_slash es
              else if es = [] then ''.'' else join_slash es))"

text \<open>\<open>path.Join\<close>: empty elements are ignored, the rest is joined by slashes and cleaned.\<close>

definition path_Join :: "string list \<Rightarrow> string" where
  "path_Join elems =
     (case filter (\<lambda>e. e \<noteq> []) elems of
        [] \<Rightarrow> []
      | es \<Rightarrow> path_Clean (join_slash es))"

section \<open>The filesystem\<close>

text \<open>
  Every kernel knob this code touches is a file. The filesystem is a store from resolved
  paths to contents. A path is resolved as the kernel does it, to the list of its
  elements: repeated slashes and \<open>.\<close> vanish and \<open>..\<close> steps back, so two spellings of
  one file are one key. Symbolic links are not modelled, and a relative path is resolved
  from the root (every path built here in production is absolute).

  A test double of the filesystem can make any single operation fail: \<open>rfault\<close>,
  \<open>wfault\<close> and \<open>dfault\<close> give the error injected for a read, for a write of given
  data, and for creating or removing a directory entry. \<open>oplog\<close> records every
  attempted mutation, failed or not, in order.
\<close>

type_synonym fpath = "string list"

definition resolve :: "string \<Rightarrow> fpath" where
  "resolve p = clean_elems True [] (strings_Split p (CHR ''/''))"

datatype fsop =
    OpWrite fpath string
  | OpMkdir fpath
  | OpRemove fpath
  | OpExec string

record world =
  files :: "fpath \<Rightarrow> string option"
  oplog :: "fsop list"
  rfault :: "fpath \<Rightarrow> error option"
  wfault :: "fpath \<Rightarrow> string \<Rightarrow> error option"
  dfault :: "fpath \<Rightarrow> error option"

definition os_ReadFile :: "string \<Rightarrow> world \<Rightarrow> string outcome" where
  "os_ReadFile p w =
     (case rfault w (resolve p) of
        Some e \<Rightarrow> Err e
      | None \<Rightarrow> (case files w (resolve p) of
                   None \<Rightarrow> Err ENOENT
                 | Some d \<Rightarrow> Ok d))"

text \<open>\<open>os.WriteFile\<close> creates the file when it is missing.\<close>

definition os_WriteFile :: "string \<Rightarrow> string \<Rightarrow> world \<Rightarrow> unit outcome \<times> world" where
  "os_WriteFile p d w =
     (let w1 = w\<lparr>oplog := oplog w @ [OpWrite (resolve p) d]\<rparr>
      in case wfault w (resolve p) d of
           Some e \<Rightarrow> (Err e, w1)
         | None \<Rightarrow> (Ok (), w1\<lparr>files := (files w)(resolve p \<mapsto> d)\<rparr>))"

definition os_MkdirAll :: "string \<Rightarrow> world \<Rightarrow> unit outcome \<times> world" where
  "os_MkdirAll p w =
     (let w1 = w\<lparr>oplog := oplog w @ [OpMkdir (resolve p)]\<rparr>
      in case dfault w (resolve p) of
           Some e \<Rightarrow> (Err e, w1)
         | None \<Rightarrow> (Ok (), w1))"

definition os_Remove :: "string \<Rightarrow> world \<Rightarrow> unit outcome \<times> world" where
  "os_Remove p w =
     (let w1 = w\<lparr>oplog := oplog w @ [OpRemove (resolve p)]\<rparr>
      in case dfault w (resolve p) of
           Some e \<Rightarrow> (Err e, w1)
         | None \<Rightarrow> (case files w (resolve p) of
                      None \<Rightarrow> (Err ENOENT, w1)
                    | Some _ \<Rightarrow> (Ok (), w1\<lparr>files := (files w)(resolve p := None)\<rparr>)))"

definition fileExists :: "string \<Rightarrow> world \<Rightarrow> bool" where
  "fileExists p w = (files w (resolve p) \<noteq> None)"

text \<open>
  \<open>cgroups.ReadFile(dir, file)\<close> and \<open>cgroups.WriteFile(dir, file, data)\<close> of libcontainer
  open \<open>dir/file\<close>; the write opens without creating, so a missing file is \<open>ENOENT\<close>.
\<close>

definition cgroups_ReadFile :: "string \<Rightarrow> string \<Rightarrow> world \<Rightarrow> string outcome" where
  "cgroups_ReadFile dir file w =
     (if dir = [] then Err (Msg (''no directory specified for '' @ file))
      else os_ReadFile (dir @ ''/'' @ file) w)"

definition cgroups_WriteFile :: "string \<Rightarrow> string \<Rightarrow> string \<Rightarrow> world \<Rightarrow> unit outcome \<times> world" where
  "cgroups_WriteFile dir file d w =
     (if dir = [] then (Err (Msg (''no directory specified for '' @ file)), w)
      else (let k = resolve (dir @ ''/'' @ file);
                w1 = w\<lparr>oplog := oplog w @ [OpWrite k d]\<rparr>
            in case wfault w k d of
                 Some e \<Rightarrow> (Err e, w1)
               | None \<Rightarrow> (case files w k of
                            None \<Rightarrow> (Err ENOENT, w1)
                          | Some _ \<Rightarrow> (Ok (), w1\<lparr>files := (files w)(k \<mapsto> d)\<rparr>))))"

section \<open>Containers and sandboxes\<close>

text \<open>
  The part of the runtime spec the hooks read. A Go pointer that may be nil is an
  \<open>option\<close>; \<open>Shares\<close> and \<open>Period\<close> are \<open>*uint64\<close>.
\<close>

record LinuxCPU =
  Cpus :: string
  Shares :: "64 word option"
  Period :: "64 word option"

record LinuxResources =
  CPU :: "LinuxCPU option"

record Linux =
  Resources :: "LinuxResources option"

record Process =
  Env :: "string list"

record Spec =
  Linux :: "Linux option"
  Process :: "Process option"

record Container =
  ID :: string
  Name :: string
  MetadataName :: string
  Pid :: "int outcome"
  Spec :: Spec

record Sandbox =
  Annotations :: "string \<Rightarrow> string option"
  CgroupParent :: string

text \<open>
  The guard every controller starts with: the CPU list of the container, when the spec
  has one that is not empty.
\<close>

definition container_cpus :: "Container \<Rightarrow> LinuxCPU option" where
  "container_cpus c =
     (case Linux (Spec c) of
        None \<Rightarrow> None
      | Some lspec \<Rightarrow>
          (case Resources lspec of
             None \<Rightarrow> None
           | Some res \<Rightarrow>
               (case CPU res of
                  None \<Rightarrow> None
                | Some cpu \<Rightarrow> if Cpus cpu = [] then None else Some cpu)))"

section \<open>Power knobs: PM QoS resume latency and frequency governor\<close>

definition sysCPUDir :: string where
  "sysCPUDir = ''/sys/devices/system/cpu''"

definition sysCPUSaveDir :: string where
  "sysCPUSaveDir = ''/var/run/crio/cpu''"

definition latencyFile_of :: "string \<Rightarrow> int \<Rightarrow> string" where
  "latencyFile_of cpuDir cpu = cpuDir @ ''/cpu'' @ strconv_Itoa cpu @ ''/power/pm_qos_resume_latency_us''"

definition cpuPowerSaveDir_of :: "string \<Rightarrow> int \<Rightarrow> string" where
  "cpuPowerSaveDir_of cpuSaveDir cpu = cpuSaveDir @ ''/cpu'' @ strconv_Itoa cpu @ ''/power''"

definition latencyFileOrig_of :: "string \<Rightarrow> int \<Rightarrow> string" where
  "latencyFileOrig_of cpuSaveDir cpu =
     path_Join [cpuPowerSaveDir_of cpuSaveDir cpu, ''pm_qos_resume_latency_us'']"

text \<open>The loop over \<open>cpus.List()\<close> of \<open>doSetCPUPMQOSResumeLatency\<close>.\<close>

fun pmqos_loop :: "string \<Rightarrow> string \<Rightarrow> string \<Rightarrow> int list \<Rightarrow> world \<Rightarrow> unit outcome \<times> world" where
  "pmqos_loop latency cpuDir cpuSaveDir [] w = (Ok (), w)"
| "pmqos_loop latency cpuDir cpuSaveDir (cpu # cpus) w =
     (if latency \<noteq> [] then
        (case os_ReadFile (latencyFile_of cpuDir cpu) w of
           Err e \<Rightarrow> (Err e, w)
         | Panic \<Rightarrow> (Panic, w)
         | Ok latencyOrig \<Rightarrow>
             (case os_MkdirAll (cpuPowerSaveDir_of cpuSaveDir cpu) w of
                (Ok _, w1) \<Rightarrow>
                  (case os_WriteFile (latencyFileOrig_of cpuSaveDir cpu) latencyOrig w1 of
                     (Ok _, w2) \<Rightarrow>
                       (case os_WriteFile (latencyFile_of cpuDir cpu) latency w2 of
                          (Ok _, w3) \<Rightarrow> pmqos_loop latency cpuDir cpuSaveDir cpus w3
                        | (r, w3) \<Rightarrow> (r, w3))
                   | (r, w2) \<Rightarrow> (r, w2))
              | (r, w1) \<Rightarrow> (r, w1)))
      else
        (case os_ReadFile (latencyFileOrig_of cpuSaveDir cpu) w of
           Err e \<Rightarrow> if errors_Is_ErrNotExist e then (Ok (), w) else (Err e, w)
         | Panic \<Rightarrow> (Panic, w)
         | Ok latencyOrig \<Rightarrow>
             (case os_WriteFile (latencyFile_of cpuDir cpu) latencyOrig w of
                (Ok _, w1) \<Rightarrow>
                  (case os_Remove (latencyFileOrig_of cpuSaveDir cpu) w1 of
                     (Ok _, w2) \<Rightarrow> pmqos_loop latency cpuDir cpuSaveDir cpus w2
                   | (r, w2) \<Rightarrow> (r, w2))
              | (r, w1) \<Rightarrow> (r, w1))))"

definition doSetCPUPMQOSResumeLatency ::
  "Container \<Rightarrow> string \<Rightarrow> string \<Rightarrow> string \<Rightarrow> world \<Rightarrow> unit outcome \<times> world" where
  "doSetCPUPMQOSResumeLatency c latency cpuDir cpuSaveDir w =
     (case container_cpus c of
        None \<Rightarrow> (Err (Msg (''find container '' @ ID c @ '' CPUs'')), w)
      | Some cpu \<Rightarrow>
          (case cpuset_Parse (Cpus cpu) of
             Err e \<Rightarrow> (Err e, w)
           | Panic \<Rightarrow> (Panic, w)
           | Ok cpus \<Rightarrow> pmqos_loop latency cpuDir cpuSaveDir (cpuset_List cpus) w))"

definition setCPUPMQOSResumeLatency :: "Container \<Rightarrow> string \<Rightarrow> world \<Rightarrow> unit outcome \<times> world" where
  "setCPUPMQOSResumeLatency c latency w =
     doSetCPUPMQOSResumeLatency c latency sysCPUDir sysCPUSaveDir w"

definition isCPUGovernorSupported :: "string \<Rightarrow> string \<Rightarrow> int \<Rightarrow> world \<Rightarrow> unit outcome" where
  "isCPUGovernorSupported governor cpuDir cpu w =
     (case os_ReadFile (cpuDir @ ''/cpu'' @ strconv_Itoa cpu @ ''/cpufreq/scaling_available_governors'') w of
        Err e \<Rightarrow> Err e
      | Panic \<Rightarrow> Panic
      | Ok availGovernors \<Rightarrow>
          if governor \<in> set (strings_Fields availGovernors) then Ok ()
          else Err (Msg (''governor '' @ governor @ '' not available for cpu '' @ strconv_Itoa cpu)))"

definition governorFile_of :: "string \<Rightarrow> int \<Rightarrow> string" where
  "governorFile_of cpuDir cpu = cpuDir @ ''/cpu'' @ strconv_Itoa cpu @ ''/cpufreq/scaling_governor''"

definition cpuFreqSaveDir_of :: "string \<Rightarrow> int \<Rightarrow> string" where
  "cpuFreqSaveDir_of cpuSaveDir cpu = cpuSaveDir @ ''/cpu'' @ strconv_Itoa cpu @ ''/cpufreq''"

definition governorFileOrig_of :: "string \<Rightarrow> int \<Rightarrow> string" where
  "governorFileOrig_of cpuSaveDir cpu =
     path_Join [cpuFreqSaveDir_of cpuSaveDir cpu, ''scaling_governor'']"

text \<open>The loop over \<open>cpus.List()\<close> of \<open>doSetCPUFreqGovernor\<close>.\<close>

fun governor_loop :: "string \<Rightarrow> string \<Rightarrow> string \<Rightarrow> int list \<Rightarrow> world \<Rightarrow> unit outcome \<times> world" where
  "governor_loop governor cpuDir cpuSaveDir [] w = (Ok (), w)"
| "governor_loop governor cpuDir cpuSaveDir (cpu # cpus) w =
     (if governor \<noteq> [] then
        (case os_ReadFile (governorFile_of cpuDir cpu) w of
           Err e \<Rightarrow> (Err e, w)
         | Panic \<Rightarrow> (Panic, w)
         | Ok governorOrig \<Rightarrow>
             (case isCPUGovernorSupported governor cpuDir cpu w of
                Err e \<Rightarrow> (Err e, w)
              | Panic \<Rightarrow> (Panic, w)
              | Ok _ \<Rightarrow>
                  (case os_MkdirAll (cpuFreqSaveDir_of cpuSaveDir cpu) w of
                     (Ok _, w1) \<Rightarrow>
                       (case os_WriteFile (governorFileOrig_of cpuSaveDir cpu) governorOrig w1 of
                          (Ok _, w2) \<Rightarrow>
                            (case os_WriteFile (governorFile_of cpuDir cpu) governor w2 of
                               (Ok _, w3) \<Rightarrow> governor_loop governor cpuDir cpuSaveDir cpus w3
                             | (r, w3) \<Rightarrow> (r, w3))
                        | (r, w2) \<Rightarrow> (r, w2))
                   | (r, w1) \<Rightarrow> (r, w1))))
      else
        (case os_ReadFile (governorFileOrig_of cpuSaveDir cpu) w of
           Err e \<Rightarrow> if errors_Is_ErrNotExist e then (Ok (), w) else (Err e, w)
         | Panic \<Rightarrow> (Panic, w)
         | Ok governorOrig \<Rightarrow>
             (case os_WriteFile (governorFile_of cpuDir cpu) governorOrig w of
                (Ok _, w1) \<Rightarrow>
                  (case os_Remove (governorFileOrig_of cpuSaveDir cpu) w1 of
                     (Ok _, w2) \<Rightarrow> governor_loop governor cpuDir cpuSaveDir cpus w2
                   | (r, w2) \<Rightarrow> (r, w2))
              | (r, w1) \<Rightarrow> (r, w1))))"

definition doSetCPUFreqGovernor ::
  "Container \<Rightarrow> string \<Rightarrow> string \<Rightarrow> string \<Rightarrow> world \<Rightarrow> unit outcome \<times> world" where
  "doSetCPUFreqGovernor c governor cpuDir cpuSaveDir w =
     (case container_cpus c of
        None \<Rightarrow> (Err (Msg (''find container '' @ ID c @ '' CPUs'')), w)
      | Some cpu \<Rightarrow>
          (case cpuset_Parse (Cpus cpu) of
             Err e \<Rightarrow> (Err e, w)
           | Panic \<Rightarrow> (Panic, w)
           | Ok cpus \<Rightarrow> governor_loop governor cpuDir cpuSaveDir (cpuset_List cpus) w))"

definition setCPUFreqGovernor :: "Container \<Rightarrow> string \<Rightarrow> world \<Rightarrow> unit outcome \<times> world" where
  "setCPUFreqGovernor c governor w =
     doSetCPUFreqGovernor c governor sysCPUDir sysCPUSaveDir w"

section \<open>The node and the external collaborators\<close>

text \<open>
  What the hooks take from outside this file: the annotation keys (package
  \<open>pkg/annotations\<close>), the cgroup version of the node, the cgroup files of a process,
  the cgroup manager, the service manager, and the helpers of the IRQ code that live in
  another file of the package. They are parameters: every theorem below holds for all of
  them. \<open>map_order\<close> is the order in which Go iterates over a map, which the language
  leaves open.
\<close>

record Hierarchy =
  GetAbsoluteControllerPodPath :: "string \<Rightarrow> string"
  GetAbsoluteControllerContainerPath :: "string \<Rightarrow> string"

record env =
  CgroupIsV2 :: bool
  CPULoadBalancingAnnotation :: string
  CPUQuotaAnnotation :: string
  IRQLoadBalancingAnnotation :: string
  CPUCStatesAnnotation :: string
  CPUFreqGovernorAnnotation :: string
  CPUSharedAnnotation :: string
  ParseCgroupFile :: "string \<Rightarrow> (string \<Rightarrow> string option) outcome"
  CgroupBuildHierarchyFrom :: "int \<Rightarrow> Hierarchy outcome"
  map_order :: "(string \<times> string) list \<Rightarrow> (string \<times> string) list"
  new_cgroup_files :: "(string \<times> string) list"
  ContainerCgroupAbsolutePath :: "bool \<Rightarrow> string \<Rightarrow> string \<Rightarrow> string outcome"
  libctr_Set_unlimited_quota :: "string \<Rightarrow> string \<Rightarrow> bool \<Rightarrow> world \<Rightarrow> unit outcome \<times> world"
  UpdateIRQSmpAffinityMask :: "string \<Rightarrow> string \<Rightarrow> bool \<Rightarrow> (string \<times> string) outcome"
  updateIrqBalanceConfigFile :: "string \<Rightarrow> string \<Rightarrow> world \<Rightarrow> unit outcome \<times> world"
  retrieveIrqBannedCPUMasks :: "string \<Rightarrow> world \<Rightarrow> string outcome"
  isServiceEnabled :: "string \<Rightarrow> bool"
  restartIrqBalanceService :: "world \<Rightarrow> unit outcome \<times> world"
  LookPath :: "string \<Rightarrow> string outcome"
  run_command :: "string \<Rightarrow> string list \<Rightarrow> string \<Rightarrow> world \<Rightarrow> unit outcome \<times> world"
  mapHexCharToByte :: "string \<Rightarrow> 8 word list outcome"
  isAllBitSet :: "8 word list \<Rightarrow> bool"

record HighPerformanceHooks =
  irqBalanceConfigFile :: string
  sharedCPUs :: "CPUSet option"

definition annotationTrue :: string where "annotationTrue = ''true''"
definition annotationDisable :: string where "annotationDisable = ''disable''"
definition annotationEnable :: string where "annotationEnable = ''enable''"
definition irqBalancedName :: string where "irqBalancedName = ''irqbalance''"
definition irqBalanceBannedCpus :: string where "irqBalanceBannedCpus = ''IRQBALANCE_BANNED_CPUS''"
definition IrqSmpAffinityProcFile :: string where "IrqSmpAffinityProcFile = ''/proc/irq/default_smp_affinity''"
definition cpusetPartition :: string where "cpusetPartition = ''cpuset.cpus.partition''"
definition cpusetExclusive :: string where "cpusetExclusive = ''cpuset.cpus.exclusive''"
definition cpusetCpus :: string where "cpusetCpus = ''cpuset.cpus''"
definition cgroupSubTreeControl :: string where "cgroupSubTreeControl = ''cgroup.subtree_control''"
definition cgroupV1Quota :: string where "cgroupV1Quota = ''cpu.cfs_quota_us''"
definition cgroupV2Quota :: string where "cgroupV2Quota = ''cpu.max''"
definition IsolatedCPUsEnvVar :: string where "IsolatedCPUsEnvVar = ''OPENSHIFT_ISOLATED_CPUS''"
definition SharedCPUsEnvVar :: string where "SharedCPUsEnvVar = ''OPENSHIFT_SHARED_CPUS''"
definition milliCPUToCPU :: int where "milliCPUToCPU = 1000"

text \<open>Indexing a Go \<open>map[string]string\<close>: a missing key reads as the empty string.\<close>

definition map_index :: "(string \<Rightarrow> string option) \<Rightarrow> string \<Rightarrow> string" where
  "map_index m k = (case m k of None \<Rightarrow> [] | Some v \<Rightarrow> v)"

section \<open>Annotation policy\<close>

definition shouldCPULoadBalancingBeDisabled :: "env \<Rightarrow> (string \<Rightarrow> string option) \<Rightarrow> bool" where
  "shouldCPULoadBalancingBeDisabled E annotations =
     (map_index annotations (CPULoadBalancingAnnotation E) = annotationTrue
      \<or> map_index annotations (CPULoadBalancingAnnotation E) = annotationDisable)"

definition shouldCPUQuotaBeDisabled :: "env \<Rightarrow> (string \<Rightarrow> string option) \<Rightarrow> bool" where
  "shouldCPUQuotaBeDisabled E annotations =
     (map_index annotations (CPUQuotaAnnotation E) = annotationTrue
      \<or> map_index annotations (CPUQuotaAnnotation E) = annotationDisable)"

definition shouldIRQLoadBalancingBeDisabled :: "env \<Rightarrow> (string \<Rightarrow> string option) \<Rightarrow> bool" where
  "shouldIRQLoadBalancingBeDisabled E annotations =
     (map_index annotations (IRQLoadBalancingAnnotation E) = annotationTrue
      \<or> map_index annotations (IRQLoadBalancingAnnotation E) = annotationDisable)"

text \<open>\<open>value, present = annotations[key]\<close>: \<open>None\<close> is "not present".\<close>

definition shouldCStatesBeConfigured :: "env \<Rightarrow> (string \<Rightarrow> string option) \<Rightarrow> string option" where
  "shouldCStatesBeConfigured E annotations = annotations (CPUCStatesAnnotation E)"

definition shouldFreqGovernorBeConfigured :: "env \<Rightarrow> (string \<Rightarrow> string option) \<Rightarrow> string option" where
  "shouldFreqGovernorBeConfigured E annotations = annotations (CPUFreqGovernorAnnotation E)"

definition requestedSharedCPUs :: "env \<Rightarrow> (string \<Rightarrow> string option) \<Rightarrow> string \<Rightarrow> bool" where
  "requestedSharedCPUs E annotations cName =
     (annotations (CPUSharedAnnotation E @ ''/'' @ cName) = Some annotationEnable)"

section \<open>Eligibility\<close>

definition isCgroupParentBurstable :: "Sandbox \<Rightarrow> bool" where
  "isCgroupParentBurstable s = strings_Contains (CgroupParent s) ''burstable''"

definition isCgroupParentBestEffort :: "Sandbox \<Rightarrow> bool" where
  "isCgroupParentBestEffort s = strings_Contains (CgroupParent s) ''besteffort''"

text \<open>
  \<open>*(cSpec.Linux.Resources.CPU.Shares) % 1024 == 0\<close>: four pointers are followed with no
  check, so a nil one is a panic.
\<close>

definition isContainerRequestWholeCPU :: "Spec \<Rightarrow> bool outcome" where
  "isContainerRequestWholeCPU cSpec =
     (case Linux cSpec of
        None \<Rightarrow> Panic
      | Some l \<Rightarrow>
          (case Resources l of
             None \<Rightarrow> Panic
           | Some r \<Rightarrow>
               (case CPU r of
                  None \<Rightarrow> Panic
                | Some cpu \<Rightarrow>
                    (case Shares cpu of
                       None \<Rightarrow> Panic
                     | Some sh \<Rightarrow> Ok (sh mod 1024 = 0)))))"

definition shouldRunHooks :: "Spec \<Rightarrow> Sandbox \<Rightarrow> bool outcome" where
  "shouldRunHooks cSpec s =
     (if isCgroupParentBurstable s then Ok False
      else if isCgroupParentBestEffort s then Ok False
      else (case isContainerRequestWholeCPU cSpec of
              Panic \<Rightarrow> Panic
            | Err e \<Rightarrow> Err e
            | Ok whole \<Rightarrow> if \<not> whole then Ok False else Ok True))"

section \<open>CPU load balancing\<close>

definition addOrRemoveCpusetFromFile ::
  "string \<Rightarrow> string \<Rightarrow> CPUSet \<Rightarrow> bool \<Rightarrow> world \<Rightarrow> string outcome \<times> world" where
  "addOrRemoveCpusetFromFile path file cpus add w =
     (case cgroups_ReadFile path file w of
        Err e \<Rightarrow> (Err e, w)
      | Panic \<Rightarrow> (Panic, w)
      | Ok currentCpusStr \<Rightarrow>
          (case cpuset_Parse (strings_TrimSpace currentCpusStr) of
             Err e \<Rightarrow> (Err e, w)
           | Panic \<Rightarrow> (Panic, w)
           | Ok currentCpus \<Rightarrow>
               (let targetCpus = (if add then cpuset_Union currentCpus cpus
                                  else cpuset_Difference currentCpus cpus)
                in case cgroups_WriteFile path file (cpuset_String targetCpus) w of
                     (Ok _, w1) \<Rightarrow> (Ok currentCpusStr, w1)
                   | (Err e, w1) \<Rightarrow> (Err e, w1)
                   | (Panic, w1) \<Rightarrow> (Panic, w1))))"

definition cpusetOfContainer :: "env \<Rightarrow> Container \<Rightarrow> string outcome" where
  "cpusetOfContainer E c =
     (case Pid c of
        Err e \<Rightarrow> Err (Wrap (''failed to get pid of container '' @ ID c) e)
      | Panic \<Rightarrow> Panic
      | Ok pid \<Rightarrow>
          (case ParseCgroupFile E (''/proc/'' @ strconv_Itoa pid @ ''/cgroup'') of
             Err e \<Rightarrow> Err (Wrap (''failed to get cgroups of container '' @ ID c) e)
           | Panic \<Rightarrow> Panic
           | Ok controllers \<Rightarrow>
               (let path = (if CgroupIsV2 E then [] else ''cpuset'')
                in case controllers path of
                     None \<Rightarrow> Err (Msg (''failed to get cpuset of container '' @ ID c))
                   | Some cpusetPath \<Rightarrow> Ok cpusetPath)))"

definition disableCPULoadBalancingV1 :: "env \<Rightarrow> Container \<Rightarrow> world \<Rightarrow> unit outcome \<times> world" where
  "disableCPULoadBalancingV1 E c w =
     (case cpusetOfContainer E c of
        Err e \<Rightarrow> (Err e, w)
      | Panic \<Rightarrow> (Panic, w)
      | Ok cpusetPath \<Rightarrow>
          cgroups_WriteFile (''/sys/fs/cgroup/cpuset'' @ cpusetPath) ''cpuset.sched_load_balance'' ''0'' w)"

text \<open>
  \<open>valuesForRevert[currentPath] = cpusStrForRevert\<close>: the map is kept as the list of its
  entries; an assignment replaces the entry of a key that is there and adds one otherwise.
\<close>

fun map_assign :: "string \<Rightarrow> string \<Rightarrow> (string \<times> string) list \<Rightarrow> (string \<times> string) list" where
  "map_assign k v [] = [(k, v)]"
| "map_assign k v ((k', v') # kvs) =
     (if k' = k then (k, v) # kvs else (k', v') # map_assign k v kvs)"

text \<open>
  The loop of \<open>setCPULoadBalancingV2\<close> over the elements of the cgroup path. It returns
  the outcome, the entries of \<open>valuesForRevert\<close> and the filesystem.
\<close>

fun v2_levels ::
  "bool \<Rightarrow> CPUSet \<Rightarrow> string \<Rightarrow> string list \<Rightarrow> (string \<times> string) list \<Rightarrow> world
     \<Rightarrow> unit outcome \<times> (string \<times> string) list \<times> world" where
  "v2_levels enable cpus currentPath [] valuesForRevert w = (Ok (), valuesForRevert, w)"
| "v2_levels enable cpus currentPath (d # ds) valuesForRevert w =
     (if d = [] then v2_levels enable cpus currentPath ds valuesForRevert w
      else
        (let currentPath = currentPath @ ''/'' @ d
         in case (if \<not> enable
                  then addOrRemoveCpusetFromFile currentPath ''cpuset.cpus'' cpus (\<not> enable) w
                  else (Ok [], w)) of
              (Err e, w1) \<Rightarrow> (Err e, valuesForRevert, w1)
            | (Panic, w1) \<Rightarrow> (Panic, valuesForRevert, w1)
            | (Ok _, w1) \<Rightarrow>
                (case addOrRemoveCpusetFromFile currentPath ''cpuset.cpus.exclusive'' cpus (\<not> enable) w1 of
                   (Err e, w2) \<Rightarrow> (Err e, valuesForRevert, w2)
                 | (Panic, w2) \<Rightarrow> (Panic, valuesForRevert, w2)
                 | (Ok cpusStrForRevert, w2) \<Rightarrow>
                     v2_levels enable cpus currentPath ds
                       (map_assign currentPath cpusStrForRevert valuesForRevert) w2)))"

text \<open>\<open>c.Spec().Linux.Resources.CPU.Cpus\<close> with no nil check.\<close>

definition deref_Cpus :: "Container \<Rightarrow> string option" where
  "deref_Cpus c =
     (case Linux (Spec c) of
        None \<Rightarrow> None
      | Some l \<Rightarrow>
          (case Resources l of
             None \<Rightarrow> None
           | Some r \<Rightarrow>
               (case CPU r of
                  None \<Rightarrow> None
                | Some cpu \<Rightarrow> Some (Cpus cpu))))"

text \<open>
  The body of \<open>setCPULoadBalancingV2\<close>, up to its \<open>return\<close>: the outcome, the entries
  of \<open>valuesForRevert\<close> at that point, and the filesystem. The returns before the
  \<open>defer\<close> statement leave no entries.
\<close>

definition setCPULoadBalancingV2_body ::
  "env \<Rightarrow> Container \<Rightarrow> bool \<Rightarrow> world \<Rightarrow> unit outcome \<times> (string \<times> string) list \<times> world" where
  "setCPULoadBalancingV2_body E c enable w =
     (case deref_Cpus c of
        None \<Rightarrow> (Panic, [], w)
      | Some cpusStr \<Rightarrow>
          (case cpuset_Parse cpusStr of
             Err e \<Rightarrow> (Err e, [], w)
           | Panic \<Rightarrow> (Panic, [], w)
           | Ok cpus \<Rightarrow>
               (case cpusetOfContainer E c of
                  Err e \<Rightarrow> (Err e, [], w)
                | Panic \<Rightarrow> (Panic, [], w)
                | Ok cpusetPath \<Rightarrow>
                    (case v2_levels enable cpus ''/sys/fs/cgroup''
                            (strings_Split cpusetPath (CHR ''/'')) [] w of
                       (Err e, valuesForRevert, w1) \<Rightarrow> (Err e, valuesForRevert, w1)
                     | (Panic, valuesForRevert, w1) \<Rightarrow> (Panic, valuesForRevert, w1)
                     | (Ok _, valuesForRevert, w1) \<Rightarrow>
                         (case cgroups_WriteFile (path_Join [''/sys/fs/cgroup'', cpusetPath])
                                 ''cpuset.cpus.partition'' ''isolated'' w1 of
                            (Err e, w2) \<Rightarrow>
                              if os_IsNotExist e \<and> enable then (Ok (), valuesForRevert, w2)
                              else (Err e, valuesForRevert, w2)
                          | (r, w2) \<Rightarrow> (r, valuesForRevert, w2))))))"

text \<open>
  The deferred function: when the body returned an error, every entry of
  \<open>valuesForRevert\<close> is written back; a failure of such a write is logged and dropped.
\<close>

definition revert_values :: "env \<Rightarrow> (string \<times> string) list \<Rightarrow> world \<Rightarrow> world" where
  "revert_values E valuesForRevert w =
     fold (\<lambda>pv w'. snd (cgroups_WriteFile (fst pv) ''cpuset.cpus.exclusive'' (snd pv) w'))
          (map_order E valuesForRevert) w"

definition setCPULoadBalancingV2 :: "env \<Rightarrow> Container \<Rightarrow> bool \<Rightarrow> world \<Rightarrow> unit outcome \<times> world" where
  "setCPULoadBalancingV2 E c enable w =
     (case setCPULoadBalancingV2_body E c enable w of
        (Err retErr, valuesForRevert, w1) \<Rightarrow> (Err retErr, revert_values E valuesForRevert w1)
      | (r, valuesForRevert, w1) \<Rightarrow> (r, w1))"

definition setCPULoadBalancing :: "env \<Rightarrow> Container \<Rightarrow> bool \<Rightarrow> world \<Rightarrow> unit outcome \<times> world" where
  "setCPULoadBalancing E c enable w =
     (case container_cpus c of
        None \<Rightarrow> (Err (Msg (''find container '' @ ID c @ '' CPUs'')), w)
      | Some _ \<Rightarrow>
          if CgroupIsV2 E then setCPULoadBalancingV2 E c enable w
          else if \<not> enable then disableCPULoadBalancingV1 E c w
          else (Ok (), w))"

section \<open>Shared CPUs\<close>

text \<open>
  Signed 64-bit arithmetic of Go: a product wraps around, a quotient truncates towards
  zero.
\<close>

definition wrap_int64 :: "int \<Rightarrow> int" where
  "wrap_int64 x = ((x + 2 ^ 63) mod 2 ^ 64) - 2 ^ 63"

definition quot_int64 :: "int \<Rightarrow> int \<Rightarrow> int" where
  "quot_int64 a b = sgn a * sgn b * (\<bar>a\<bar> div \<bar>b\<bar>)"

text \<open>
  \<open>resource.ParseQuantity(strconv.Itoa(n))\<close> followed by \<open>MilliValue()\<close>: a count \<open>n\<close> of
  whole CPUs is \<open>n * 1000\<close> milli-CPUs. This is exact as long as the product fits 64
  bits, which a set held in memory always satisfies.
\<close>

definition Quantity_MilliValue :: "int \<Rightarrow> int" where
  "Quantity_MilliValue n = n * 1000"

definition calculateCFSQuota :: "CPUSet \<Rightarrow> int \<Rightarrow> int outcome" where
  "calculateCFSQuota cpus period =
     Ok (quot_int64 (wrap_int64 (Quantity_MilliValue (cpuset_Size cpus) * period)) milliCPUToCPU)"

definition quotaFile :: "env \<Rightarrow> string" where
  "quotaFile E = (if CgroupIsV2 E then cgroupV2Quota else cgroupV1Quota)"

text \<open>
  \<open>os.Mkdir\<close> is used for one thing here, a new cgroup directory, which the kernel fills
  with its interface files (\<open>new_cgroup_files\<close>: names and first contents).
\<close>

definition os_Mkdir :: "env \<Rightarrow> string \<Rightarrow> world \<Rightarrow> unit outcome \<times> world" where
  "os_Mkdir E p w =
     (let w1 = w\<lparr>oplog := oplog w @ [OpMkdir (resolve p)]\<rparr>
      in case dfault w (resolve p) of
           Some e \<Rightarrow> (Err e, w1)
         | None \<Rightarrow>
             (Ok (), w1\<lparr>files := fold (\<lambda>fv m. m(resolve (p @ ''/'' @ fst fv) \<mapsto> snd fv))
                                     (new_cgroup_files E) (files w)\<rparr>))"

text \<open>\<open>injectCpusetEnv\<close>: \<open>spec.Process\<close> is a pointer followed with no check.\<close>

definition injectCpusetEnv :: "Container \<Rightarrow> CPUSet \<Rightarrow> CPUSet \<Rightarrow> Container outcome" where
  "injectCpusetEnv c isolated shared =
     (case Process (Spec c) of
        None \<Rightarrow> Panic
      | Some p \<Rightarrow>
          Ok (c\<lparr>Spec := (Spec c)\<lparr>Process := Some (p\<lparr>Env := Env p @
                 [IsolatedCPUsEnvVar @ ''='' @ cpuset_String isolated,
                  SharedCPUsEnvVar @ ''='' @ cpuset_String shared]\<rparr>)\<rparr>\<rparr>))"

text \<open>The nested isolated partition of \<open>setSharedCPUs\<close> (cgroup v2 with load balancing disabled).\<close>

definition isolate_in_child :: "env \<Rightarrow> string \<Rightarrow> CPUSet \<Rightarrow> world \<Rightarrow> unit outcome \<times> world" where
  "isolate_in_child E ctrCgroup isolatedCPUs w =
     (case cgroups_WriteFile ctrCgroup cgroupSubTreeControl ''+cpu +cpuset'' w of
        (Ok _, w1) \<Rightarrow>
          (case cgroups_WriteFile ctrCgroup cpusetPartition ''member'' w1 of
             (Ok _, w2) \<Rightarrow>
               (let cgroupChildDir = path_Join [ctrCgroup, ''cgroup-child'']
                in case os_Mkdir E cgroupChildDir w2 of
                     (Ok _, w3) \<Rightarrow>
                       (case cgroups_WriteFile cgroupChildDir cpusetCpus (cpuset_String isolatedCPUs) w3 of
                          (Ok _, w4) \<Rightarrow>
                            (case cgroups_WriteFile cgroupChildDir cpusetExclusive (cpuset_String isolatedCPUs) w4 of
                               (Ok _, w5) \<Rightarrow> cgroups_WriteFile cgroupChildDir cpusetPartition ''isolated'' w5
                             | (r, w5) \<Rightarrow> (r, w5))
                        | (r, w4) \<Rightarrow> (r, w4))
                   | (r, w3) \<Rightarrow> (r, w3))
           | (r, w2) \<Rightarrow> (r, w2))
      | (r, w1) \<Rightarrow> (r, w1))"

text \<open>
  The cgroup writes of \<open>setSharedCPUs\<close>, from the pod-level operations on (lines 824 to
  873), given the shared set, the isolated set and the quota.
\<close>

definition apply_shared_cpus ::
  "env \<Rightarrow> Sandbox \<Rightarrow> Hierarchy \<Rightarrow> CPUSet \<Rightarrow> CPUSet \<Rightarrow> int \<Rightarrow> world \<Rightarrow> unit outcome \<times> world" where
  "apply_shared_cpus E s ch shared isolatedCPUs quota w =
     (let podCpusetCgroup = GetAbsoluteControllerPodPath ch ''cpuset'';
          podCpuAcctCgroup = GetAbsoluteControllerPodPath ch ''cpuacct''
      in case addOrRemoveCpusetFromFile podCpusetCgroup cpusetCpus shared True w of
           (Err e, w1) \<Rightarrow> (Err e, w1)
         | (Panic, w1) \<Rightarrow> (Panic, w1)
         | (Ok _, w1) \<Rightarrow>
             (case cgroups_WriteFile podCpuAcctCgroup (quotaFile E) (strconv_Itoa quota) w1 of
                (Ok _, w2) \<Rightarrow>
                  (let ctrCpusetCgroup = GetAbsoluteControllerContainerPath ch ''cpuset'';
                       ctrCpuAcctCgroup = GetAbsoluteControllerContainerPath ch ''cpuacct''
                   in case addOrRemoveCpusetFromFile ctrCpusetCgroup cpusetCpus shared True w2 of
                        (Err e, w3) \<Rightarrow> (Err e, w3)
                      | (Panic, w3) \<Rightarrow> (Panic, w3)
                      | (Ok _, w3) \<Rightarrow>
                          (case cgroups_WriteFile ctrCpuAcctCgroup (quotaFile E) (strconv_Itoa quota) w3 of
                             (Ok _, w4) \<Rightarrow>
                               if shouldCPULoadBalancingBeDisabled E (Annotations s) \<and> CgroupIsV2 E
                               then isolate_in_child E ctrCpusetCgroup isolatedCPUs w4
                               else (Ok (), w4)
                           | (r, w4) \<Rightarrow> (r, w4)))
              | (r, w2) \<Rightarrow> (r, w2)))"

definition setSharedCPUs ::
  "env \<Rightarrow> Container \<Rightarrow> Sandbox \<Rightarrow> CPUSet option \<Rightarrow> world \<Rightarrow> unit outcome \<times> Container \<times> world" where
  "setSharedCPUs E c s sharedCPUsPtr w =
     (case container_cpus c of
        None \<Rightarrow> (Err (Msg (''no cpus found for container '' @ Name c)), c, w)
      | Some cpu \<Rightarrow>
          (case cpuset_Parse (Cpus cpu) of
             Err e \<Rightarrow> (Err e, c, w)
           | Panic \<Rightarrow> (Panic, c, w)
           | Ok isolatedCPUs \<Rightarrow>
               (case sharedCPUsPtr of
                  None \<Rightarrow> (Panic, c, w)
                | Some shared \<Rightarrow>
                    (let ctrCpuSet = cpuset_Union isolatedCPUs shared
                     in case Period cpu of
                          None \<Rightarrow> (Panic, c, w)
                        | Some period \<Rightarrow>
                            (case calculateCFSQuota ctrCpuSet (sint period) of
                               Err e \<Rightarrow> (Err e, c, w)
                             | Panic \<Rightarrow> (Panic, c, w)
                             | Ok quota \<Rightarrow>
                                 (case Pid c of
                                    Err e \<Rightarrow> (Err (Wrap (''failed to get pid of container '' @ ID c) e), c, w)
                                  | Panic \<Rightarrow> (Panic, c, w)
                                  | Ok pid \<Rightarrow>
                                      (case CgroupBuildHierarchyFrom E pid of
                                         Err e \<Rightarrow> (Err (Wrap (''failed to build cgroup hierarchy of container '' @ ID c) e), c, w)
                                       | Panic \<Rightarrow> (Panic, c, w)
                                       | Ok ch \<Rightarrow>
                                           (case apply_shared_cpus E s ch shared isolatedCPUs quota w of
                                              (Ok _, w1) \<Rightarrow>
                                                (case injectCpusetEnv c isolatedCPUs shared of
                                                   Ok c' \<Rightarrow> (Ok (), c', w1)
                                                 | Err e \<Rightarrow> (Err e, c, w1)
                                                 | Panic \<Rightarrow> (Panic, c, w1))
                                            | (r, w1) \<Rightarrow> (r, c, w1)))))))))"

section \<open>IRQ load balancing\<close>

definition setIRQLoadBalancing ::
  "env \<Rightarrow> Container \<Rightarrow> bool \<Rightarrow> string \<Rightarrow> string \<Rightarrow> world \<Rightarrow> unit outcome \<times> world" where
  "setIRQLoadBalancing E c enable irqSmpAffinityFile irqConfigFile w =
     (case container_cpus c of
        None \<Rightarrow> (Err (Msg (''find container '' @ ID c @ '' CPUs'')), w)
      | Some cpu \<Rightarrow>
          (case os_ReadFile irqSmpAffinityFile w of
             Err e \<Rightarrow> (Err e, w)
           | Panic \<Rightarrow> (Panic, w)
           | Ok content \<Rightarrow>
               (let currentIRQSMPSetting = strings_TrimSpace content
                in case UpdateIRQSmpAffinityMask E (Cpus cpu) currentIRQSMPSetting enable of
                     Err e \<Rightarrow> (Err e, w)
                   | Panic \<Rightarrow> (Panic, w)
                   | Ok (newIRQSMPSetting, newIRQBalanceSetting) \<Rightarrow>
                       (case os_WriteFile irqSmpAffinityFile newIRQSMPSetting w of
                          (Ok _, w1) \<Rightarrow>
                            (let isIrqConfigExists = fileExists irqConfigFile w1
                             in case (if isIrqConfigExists
                                      then updateIrqBalanceConfigFile E irqConfigFile newIRQBalanceSetting w1
                                      else (Ok (), w1)) of
                                  (Ok _, w2) \<Rightarrow>
                                    if \<not> isServiceEnabled E irqBalancedName \<or> \<not> isIrqConfigExists then
                                      (case LookPath E irqBalancedName of
                                         Ok _ \<Rightarrow>
                                           run_command E irqBalancedName [''--oneshot'']
                                             (irqBalanceBannedCpus @ ''='' @ newIRQBalanceSetting) w2
                                       | _ \<Rightarrow> (Ok (), w2))
                                    else (Ok (), snd (restartIrqBalanceService E w2))
                                | (r, w2) \<Rightarrow> (r, w2))
                        | (r, w1) \<Rightarrow> (r, w1)))))"

section \<open>CPU quota\<close>

definition has_suffix :: "string \<Rightarrow> string \<Rightarrow> bool" where
  "has_suffix s suf = has_prefix (rev s) (rev suf)"

text \<open>\<open>filepath.Base\<close> and \<open>filepath.Dir\<close>.\<close>

definition path_Base :: "string \<Rightarrow> string" where
  "path_Base p =
     (if p = [] then ''.''
      else (let q = rev (dropWhile (\<lambda>c. c = CHR ''/'') (rev p))
            in if q = [] then ''/'' else rev (takeWhile (\<lambda>c. c \<noteq> CHR ''/'') (rev q))))"

definition path_Dir :: "string \<Rightarrow> string" where
  "path_Dir p = path_Clean (rev (dropWhile (\<lambda>c. c \<noteq> CHR ''/'') (rev p)))"

definition containerCgroupAndParent ::
  "env \<Rightarrow> string \<Rightarrow> Container \<Rightarrow> (string \<times> string \<times> bool) outcome" where
  "containerCgroupAndParent E parentDir c =
     (let systemd = has_suffix parentDir ''.slice''
      in case ContainerCgroupAbsolutePath E systemd parentDir (ID c) of
           Err e \<Rightarrow> Err e
         | Panic \<Rightarrow> Panic
         | Ok cgroupPath \<Rightarrow>
             (let containerCgroup = (if systemd then ID c else path_Base cgroupPath)
              in Ok (containerCgroup, path_Dir cgroupPath, systemd)))"

text \<open>
  \<open>libctrManager\<close> builds a libcontainer manager for the cgroup and \<open>Set\<close> applies the
  unlimited quota; the manager is the collaborator \<open>libctr_Set_unlimited_quota\<close>.
\<close>

definition disableCPUQuotaForCgroup ::
  "env \<Rightarrow> string \<Rightarrow> string \<Rightarrow> bool \<Rightarrow> world \<Rightarrow> unit outcome \<times> world" where
  "disableCPUQuotaForCgroup E cgroup parent systemd w =
     libctr_Set_unlimited_quota E cgroup (if systemd then path_Base parent else parent) systemd w"

definition setCPUQuota :: "env \<Rightarrow> string \<Rightarrow> Container \<Rightarrow> world \<Rightarrow> unit outcome \<times> world" where
  "setCPUQuota E parentDir c w =
     (case containerCgroupAndParent E parentDir c of
        Err e \<Rightarrow> (Err e, w)
      | Panic \<Rightarrow> (Panic, w)
      | Ok (containerCgroup, containerCgroupParent, systemd) \<Rightarrow>
          (let podCgroup = path_Base containerCgroupParent;
               podCgroupParent = path_Dir containerCgroupParent
           in case disableCPUQuotaForCgroup E podCgroup podCgroupParent systemd w of
                (Ok _, w1) \<Rightarrow> disableCPUQuotaForCgroup E containerCgroup containerCgroupParent systemd w1
              | (r, w1) \<Rightarrow> (r, w1)))"

section \<open>The hooks\<close>

text \<open>\<open>fmt.Errorf("...: %w", err)\<close> around the error of a step; a step also hands on the container.\<close>

definition wrap_step :: "string \<Rightarrow> Container \<Rightarrow> unit outcome \<times> world \<Rightarrow> unit outcome \<times> Container \<times> world" where
  "wrap_step msg c rw =
     (case rw of
        (Err e, w) \<Rightarrow> (Err (Wrap msg e), c, w)
      | (r, w) \<Rightarrow> (r, c, w))"

text \<open>Run the next step when the one before returned no error.\<close>

definition and_then ::
  "unit outcome \<times> Container \<times> world \<Rightarrow> (Container \<Rightarrow> world \<Rightarrow> unit outcome \<times> Container \<times> world)
     \<Rightarrow> unit outcome \<times> Container \<times> world" where
  "and_then m f =
     (case m of
        (Ok _, c, w) \<Rightarrow> f c w
      | (r, c, w) \<Rightarrow> (r, c, w))"

text \<open>The directives of \<open>PreStart\<close> before the c-states (lines 79 to 106).\<close>

definition preStart_loadBalancing :: "env \<Rightarrow> Sandbox \<Rightarrow> Container \<Rightarrow> world \<Rightarrow> unit outcome \<times> Container \<times> world" where
  "preStart_loadBalancing E s c w =
     (if shouldCPULoadBalancingBeDisabled E (Annotations s)
      then wrap_step ''set CPU load balancing'' c (setCPULoadBalancing E c False w)
      else (Ok (), c, w))"

definition preStart_sharedCPUs ::
  "env \<Rightarrow> HighPerformanceHooks \<Rightarrow> Sandbox \<Rightarrow> Container \<Rightarrow> world \<Rightarrow> unit outcome \<times> Container \<times> world" where
  "preStart_sharedCPUs E h s c w =
     (if requestedSharedCPUs E (Annotations s) (MetadataName c)
      then (case setSharedCPUs E c s (sharedCPUs h) w of
              (Err e, c', w') \<Rightarrow> (Err (Wrap ''set shared CPUs'' e), c', w')
            | (r, c', w') \<Rightarrow> (r, c', w'))
      else (Ok (), c, w))"

definition preStart_irq ::
  "env \<Rightarrow> HighPerformanceHooks \<Rightarrow> Sandbox \<Rightarrow> Container \<Rightarrow> world \<Rightarrow> unit outcome \<times> Container \<times> world" where
  "preStart_irq E h s c w =
     (if shouldIRQLoadBalancingBeDisabled E (Annotations s)
      then wrap_step ''set IRQ load balancing'' c
             (setIRQLoadBalancing E c False IrqSmpAffinityProcFile (irqBalanceConfigFile h) w)
      else (Ok (), c, w))"

definition preStart_quota :: "env \<Rightarrow> Sandbox \<Rightarrow> Container \<Rightarrow> world \<Rightarrow> unit outcome \<times> Container \<times> world" where
  "preStart_quota E s c w =
     (if shouldCPUQuotaBeDisabled E (Annotations s)
      then wrap_step ''set CPU CFS quota'' c (setCPUQuota E (CgroupParent s) c w)
      else (Ok (), c, w))"

definition preStart_before_cstates ::
  "env \<Rightarrow> HighPerformanceHooks \<Rightarrow> Sandbox \<Rightarrow> Container \<Rightarrow> world \<Rightarrow> unit outcome \<times> Container \<times> world" where
  "preStart_before_cstates E h s c w =
     and_then (and_then (and_then (preStart_loadBalancing E s c w)
                                  (preStart_sharedCPUs E h s))
                        (preStart_irq E h s))
              (preStart_quota E s)"

text \<open>The c-states directive of \<open>PreStart\<close> (lines 108 to 125).\<close>

definition preStart_cstates :: "env \<Rightarrow> Sandbox \<Rightarrow> Container \<Rightarrow> world \<Rightarrow> unit outcome \<times> Container \<times> world" where
  "preStart_cstates E s c w =
     (case shouldCStatesBeConfigured E (Annotations s) of
        None \<Rightarrow> (Ok (), c, w)
      | Some v \<Rightarrow>
          if v = annotationEnable
          then wrap_step ''set CPU PM QOS resume latency'' c (setCPUPMQOSResumeLatency c ''0'' w)
          else if v = annotationDisable
          then wrap_step ''set CPU PM QOS resume latency'' c (setCPUPMQOSResumeLatency c ''n/a'' w)
          else (Err (Msg (''invalid annotation value '' @ v)), c, w))"

text \<open>The frequency governor directive of \<open>PreStart\<close> (lines 127 to 134).\<close>

definition preStart_governor :: "env \<Rightarrow> Sandbox \<Rightarrow> Container \<Rightarrow> world \<Rightarrow> unit outcome \<times> Container \<times> world" where
  "preStart_governor E s c w =
     (case shouldFreqGovernorBeConfigured E (Annotations s) of
        None \<Rightarrow> (Ok (), c, w)
      | Some v \<Rightarrow> wrap_step ''set CPU scaling governor'' c (setCPUFreqGovernor c v w))"

definition PreStart ::
  "env \<Rightarrow> HighPerformanceHooks \<Rightarrow> Container \<Rightarrow> Sandbox \<Rightarrow> world \<Rightarrow> unit outcome \<times> Container \<times> world" where
  "PreStart E h c s w =
     (case shouldRunHooks (Spec c) s of
        Panic \<Rightarrow> (Panic, c, w)
      | Err e \<Rightarrow> (Err e, c, w)
      | Ok run \<Rightarrow>
          if \<not> run then (Ok (), c, w)
          else and_then (and_then (preStart_before_cstates E h s c w)
                                  (preStart_cstates E s))
                        (preStart_governor E s))"

definition PreStop ::
  "env \<Rightarrow> HighPerformanceHooks \<Rightarrow> Container \<Rightarrow> Sandbox \<Rightarrow> world \<Rightarrow> unit outcome \<times> Container \<times> world" where
  "PreStop E h c s w =
     (case shouldRunHooks (Spec c) s of
        Panic \<Rightarrow> (Panic, c, w)
      | Err e \<Rightarrow> (Err e, c, w)
      | Ok run \<Rightarrow>
          if \<not> run then (Ok (), c, w)
          else
            and_then (and_then (and_then
              (if shouldIRQLoadBalancingBeDisabled E (Annotations s)
               then wrap_step ''set IRQ load balancing'' c
                      (setIRQLoadBalancing E c True IrqSmpAffinityProcFile (irqBalanceConfigFile h) w)
               else (Ok (), c, w))
              (\<lambda>c w. if shouldCPULoadBalancingBeDisabled E (Annotations s)
                      then wrap_step ''set CPU load balancing'' c (setCPULoadBalancing E c True w)
                      else (Ok (), c, w)))
              (\<lambda>c w. case shouldCStatesBeConfigured E (Annotations s) of
                        None \<Rightarrow> (Ok (), c, w)
                      | Some _ \<Rightarrow> wrap_step ''set CPU PM QOS resume latency'' c
                                    (setCPUPMQOSResumeLatency c [] w)))
              (\<lambda>c w. case shouldFreqGovernorBeConfigured E (Annotations s) of
                        None \<Rightarrow> (Ok (), c, w)
                      | Some _ \<Rightarrow> wrap_step ''set CPU scaling governor'' c
                                    (setCPUFreqGovernor c [] w)))"

section \<open>Restoring the irqbalance configuration at boot\<close>

definition RestoreIrqBalanceConfig ::
  "env \<Rightarrow> string \<Rightarrow> string \<Rightarrow> string \<Rightarrow> world \<Rightarrow> unit outcome \<times> world" where
  "RestoreIrqBalanceConfig E irqConfigFile irqBannedCPUConfigFile irqSmpAffinityProcFile w =
     (case os_ReadFile irqSmpAffinityProcFile w of
        Err e \<Rightarrow> (Err e, w)
      | Panic \<Rightarrow> (Panic, w)
      | Ok content \<Rightarrow>
          (let current = strings_TrimSpace content;
               s = filter (\<lambda>ch. ch \<noteq> CHR '','') current
           in case mapHexCharToByte E s of
                Err e \<Rightarrow> (Err e, w)
              | Panic \<Rightarrow> (Panic, w)
              | Ok currentMaskArray \<Rightarrow>
                  if \<not> isAllBitSet E currentMaskArray then (Ok (), w)
                  else
                    (case retrieveIrqBannedCPUMasks E irqConfigFile w of
                       Ok bannedCPUMasks \<Rightarrow>
                         if \<not> fileExists irqBannedCPUConfigFile w then
                           (case os_WriteFile irqBannedCPUConfigFile [] w of
                              (Ok _, w1) \<Rightarrow> os_WriteFile irqBannedCPUConfigFile bannedCPUMasks w1
                            | (r, w1) \<Rightarrow> (r, w1))
                         else
                           (case os_ReadFile irqBannedCPUConfigFile w of
                              Err e \<Rightarrow> (Err e, w)
                            | Panic \<Rightarrow> (Panic, w)
                            | Ok content2 \<Rightarrow>
                                (let origBannedCPUMasks = strings_TrimSpace content2
                                 in if bannedCPUMasks = origBannedCPUMasks then (Ok (), w)
                                    else
                                      (case updateIrqBalanceConfigFile E irqConfigFile origBannedCPUMasks w of
                                         (Ok _, w1) \<Rightarrow>
                                           if isServiceEnabled E irqBalancedName
                                           then (Ok (), snd (restartIrqBalanceService E w1))
                                           else (Ok (), w1)
                                       | (r, w1) \<Rightarrow> (r, w1))))
                     | _ \<Rightarrow> (Ok (), w))))"

section \<open>Notions used to state the properties\<close>

text \<open>
  A nil pointer on the chain \<open>Linux\<close>, \<open>Linux.Resources\<close>, \<open>Linux.Resources.CPU\<close>,
  \<open>Linux.Resources.CPU.Shares\<close> of a spec.
\<close>

definition shares_chain_has_nil :: "Spec \<Rightarrow> bool" where
  "shares_chain_has_nil sp =
     (case Linux sp of
        None \<Rightarrow> True
      | Some l \<Rightarrow>
          (case Resources l of
             None \<Rightarrow> True
           | Some r \<Rightarrow>
               (case CPU r of
                  None \<Rightarrow> True
                | Some cpu \<Rightarrow> Shares cpu = None)))"

text \<open>The CPU shares of a spec, when no pointer on the way is nil.\<close>

definition spec_shares :: "Spec \<Rightarrow> 64 word option" where
  "spec_shares sp =
     (case Linux sp of
        None \<Rightarrow> None
      | Some l \<Rightarrow>
          (case Resources l of
             None \<Rightarrow> None
           | Some r \<Rightarrow>
               (case CPU r of
                  None \<Rightarrow> None
                | Some cpu \<Rightarrow> Shares cpu)))"

text \<open>
  The directories that the loop of \<open>setCPULoadBalancingV2\<close> visits, in order: the values
  of \<open>currentPath\<close>, one for each element of the cgroup path that is not empty. The
  directory at depth \<open>k\<close> is the \<open>k\<close>-th of them.
\<close>

fun level_paths :: "string \<Rightarrow> string list \<Rightarrow> string list" where
  "level_paths currentPath [] = []"
| "level_paths currentPath (d # ds) =
     (if d = [] then level_paths currentPath ds
      else (currentPath @ ''/'' @ d) # level_paths (currentPath @ ''/'' @ d) ds)"

section \<open>Concrete containers and filesystems\<close>

text \<open>A filesystem with no injected failure, holding the given files.\<close>

definition mk_world :: "(fpath \<times> string) list \<Rightarrow> world" where
  "mk_world fs =
     \<lparr>files = map_of fs, oplog = [],
      rfault = (\<lambda>_. None), wfault = (\<lambda>_ _. None), dfault = (\<lambda>_. None)\<rparr>"

definition mk_container :: "string \<Rightarrow> 64 word option \<Rightarrow> 64 word option \<Rightarrow> Container" where
  "mk_container cpus shares period =
     \<lparr>ID = ''ctr1'', Name = ''app'', MetadataName = ''app'', Pid = Ok 4242,
      Spec = \<lparr>Linux = Some \<lparr>Resources = Some \<lparr>CPU = Some
                 \<lparr>Cpus = cpus, Shares = shares, Period = period\<rparr>\<rparr>\<rparr>,
              Process = Some \<lparr>Env = []\<rparr>\<rparr>\<rparr>"

text \<open>
  CPUs 1 and 2 belong to the container; only CPU 2 has saved originals, and its live
  knobs hold the values a pre-start hook wrote.
\<close>

definition world_cpu2_saved :: world where
  "world_cpu2_saved = mk_world
     [([''var'', ''run'', ''crio'', ''cpu'', ''cpu2'', ''cpufreq'', ''scaling_governor''], ''powersave''),
      ([''var'', ''run'', ''crio'', ''cpu'', ''cpu2'', ''power'', ''pm_qos_resume_latency_us''], ''0''),
      ([''sys'', ''devices'', ''system'', ''cpu'', ''cpu1'', ''cpufreq'', ''scaling_governor''], ''performance''),
      ([''sys'', ''devices'', ''system'', ''cpu'', ''cpu2'', ''cpufreq'', ''scaling_governor''], ''performance''),
      ([''sys'', ''devices'', ''system'', ''cpu'', ''cpu1'', ''power'', ''pm_qos_resume_latency_us''], ''n/a''),
      ([''sys'', ''devices'', ''system'', ''cpu'', ''cpu2'', ''power'', ''pm_qos_resume_latency_us''], ''n/a'')]"

text \<open>
  Modelled from the spec: \<open>mapHexCharToByte\<close> and \<open>isAllBitSet\<close> are defined in a file of
  the package that is not part of the sources at hand. The spec speaks of an affinity
  mask "encoded as comma-separated hex strings" and of "the kernel's all-bits-set
  default": here every hexadecimal digit is one value, and all bits are set when every
  digit is \<open>f\<close>.
\<close>

definition hex_digit_value :: "char \<Rightarrow> 8 word option" where
  "hex_digit_value ch = map_of (zip ''0123456789abcdef'' [0, 1, 2, 3, 4, 5, 6, 7, 8, 9, 10, 11, 12, 13, 14, 15]) ch"

fun hex_values :: "string \<Rightarrow> 8 word list outcome" where
  "hex_values [] = Ok []"
| "hex_values (ch # rest) =
     (case hex_digit_value ch of
        None \<Rightarrow> Err (Msg ''encoding/hex: invalid byte'')
      | Some v \<Rightarrow> (case hex_values rest of Ok vs \<Rightarrow> Ok (v # vs) | r \<Rightarrow> r))"

definition all_digits_f :: "8 word list \<Rightarrow> bool" where
  "all_digits_f vs = list_all (\<lambda>v. v = 15) vs"

text \<open>
  A cgroup v2 node. The container's cgroup is \<open>/kubepods.slice/pod1/ctr1\<close>; the
  collaborators that touch nothing of interest here succeed and do nothing.
\<close>

definition node_v2 :: env where
  "node_v2 =
     \<lparr>CgroupIsV2 = True,
      CPULoadBalancingAnnotation = ''cpu-load-balancing.crio.io'',
      CPUQuotaAnnotation = ''cpu-quota.crio.io'',
      IRQLoadBalancingAnnotation = ''irq-load-balancing.crio.io'',
      CPUCStatesAnnotation = ''cpu-c-states.crio.io'',
      CPUFreqGovernorAnnotation = ''cpu-freq-governor.crio.io'',
      CPUSharedAnnotation = ''cpu-shared.crio.io'',
      ParseCgroupFile = (\<lambda>_. Ok (map_of [([], ''/kubepods.slice/pod1/ctr1'')])),
      CgroupBuildHierarchyFrom = (\<lambda>_. Ok
         \<lparr>GetAbsoluteControllerPodPath = (\<lambda>_. ''/sys/fs/cgroup/kubepods.slice/pod1''),
          GetAbsoluteControllerContainerPath = (\<lambda>_. ''/sys/fs/cgroup/kubepods.slice/pod1/ctr1'')\<rparr>),
      map_order = (\<lambda>kvs. kvs),
      new_cgroup_files = [(''cpuset.cpus'', []), (''cpuset.cpus.exclusive'', []),
                          (''cpuset.cpus.partition'', ''member'')],
      ContainerCgroupAbsolutePath = (\<lambda>_ parent cid. Ok (parent @ ''/crio-'' @ cid)),
      libctr_Set_unlimited_quota = (\<lambda>_ _ _ w. (Ok (), w)),
      UpdateIRQSmpAffinityMask = (\<lambda>_ cur _. Ok (cur, [])),
      updateIrqBalanceConfigFile = (\<lambda>_ _ w. (Ok (), w)),
      retrieveIrqBannedCPUMasks = (\<lambda>_ _. Ok []),
      isServiceEnabled = (\<lambda>_. True),
      restartIrqBalanceService = (\<lambda>w. (Ok (), w)),
      LookPath = (\<lambda>_. Err ENOENT),
      run_command = (\<lambda>_ _ _ w. (Ok (), w)),
      mapHexCharToByte = hex_values,
      isAllBitSet = all_digits_f\<rparr>"

definition hooks0 :: HighPerformanceHooks where
  "hooks0 = \<lparr>irqBalanceConfigFile = ''/etc/sysconfig/irqbalance'', sharedCPUs = Some [0, 1]\<rparr>"

text \<open>A guaranteed pod that asks for every directive, the c-states with the given value.\<close>

definition sandbox_all :: "string \<Rightarrow> string \<Rightarrow> Sandbox" where
  "sandbox_all parent cstates =
     \<lparr>Annotations = map_of
        [(''cpu-load-balancing.crio.io'', ''disable''),
         (''cpu-quota.crio.io'', ''disable''),
         (''irq-load-balancing.crio.io'', ''disable''),
         (''cpu-c-states.crio.io'', cstates),
         (''cpu-freq-governor.crio.io'', ''performance''),
         (''cpu-shared.crio.io/app'', ''enable'')],
      CgroupParent = parent\<rparr>"

text \<open>A container whose spec has no \<open>Linux\<close> section at all.\<close>

definition container_no_linux :: Container where
  "container_no_linux =
     \<lparr>ID = ''ctr2'', Name = ''bare'', MetadataName = ''bare'', Pid = Ok 4243,
      Spec = \<lparr>Linux = None, Process = Some \<lparr>Env = []\<rparr>\<rparr>\<rparr>"


text \<open>A node that has been up for a while: CPUs 4 to 7 are banned from IRQs.\<close>

definition world_irq_banned :: world where
  "world_irq_banned = mk_world
     [([''proc'', ''irq'', ''default_smp_affinity''], ''0f'' @ [CHR 0x0A]),
      ([''etc'', ''sysconfig'', ''irqbalance''], ''IRQBALANCE_BANNED_CPUS=f0'' @ [CHR 0x0A])]"

text \<open>
  The cgroup v2 files of the container \<open>/kubepods.slice/pod1/ctr1\<close> and of its parents,
  with CPUs 2 and 3 exclusive at every level and the container an isolated partition.
  In \<open>cgroup_v2_torn_down\<close> the partition file of the container is gone.
\<close>

definition cgroup_v2_files :: "(fpath \<times> string) list" where
  "cgroup_v2_files =
     [([''sys'', ''fs'', ''cgroup'', ''kubepods.slice'', ''cpuset.cpus''], ''0-7'' @ [CHR 0x0A]),
      ([''sys'', ''fs'', ''cgroup'', ''kubepods.slice'', ''cpuset.cpus.exclusive''], ''2-3'' @ [CHR 0x0A]),
      ([''sys'', ''fs'', ''cgroup'', ''kubepods.slice'', ''pod1'', ''cpuset.cpus''], ''0-7'' @ [CHR 0x0A]),
      ([''sys'', ''fs'', ''cgroup'', ''kubepods.slice'', ''pod1'', ''cpuset.cpus.exclusive''], ''2-3'' @ [CHR 0x0A]),
      ([''sys'', ''fs'', ''cgroup'', ''kubepods.slice'', ''pod1'', ''ctr1'', ''cpuset.cpus''], ''2-3'' @ [CHR 0x0A]),
      ([''sys'', ''fs'', ''cgroup'', ''kubepods.slice'', ''pod1'', ''ctr1'', ''cpuset.cpus.exclusive''], ''2-3'' @ [CHR 0x0A])]"

definition cgroup_v2_isolated :: world where
  "cgroup_v2_isolated = mk_world (cgroup_v2_files @
     [([''sys'', ''fs'', ''cgroup'', ''kubepods.slice'', ''pod1'', ''ctr1'', ''cpuset.cpus.partition''],
       ''isolated'' @ [CHR 0x0A])])"

definition cgroup_v2_torn_down :: world where
  "cgroup_v2_torn_down = mk_world cgroup_v2_files"

text \<open>A guaranteed pod that asks for shared CPUs alone, and the cgroup files with the quota files.\<close>

definition sandbox_shared :: Sandbox where
  "sandbox_shared =
     \<lparr>Annotations = map_of [(''cpu-shared.crio.io/app'', ''enable'')],
      CgroupParent = ''/kubepods.slice/kubepods-pod7.slice''\<rparr>"

definition cgroup_v2_quota :: world where
  "cgroup_v2_quota = mk_world (cgroup_v2_files @
     [([''sys'', ''fs'', ''cgroup'', ''kubepods.slice'', ''pod1'', ''cpu.max''], ''max 100000'' @ [CHR 0x0A]),
      ([''sys'', ''fs'', ''cgroup'', ''kubepods.slice'', ''pod1'', ''ctr1'', ''cpu.max''],
       ''200000 100000'' @ [CHR 0x0A])])"

text \<open>
  Before load balancing is disabled for the container: CPUs 4 and 5 are already
  exclusive at the top level, for another container. The kernel refuses every write to
  \<open>cpuset.cpus.exclusive\<close> of the container itself (depth 3 of 3).
\<close>

definition cgroup_v2_write_fails :: world where
  "cgroup_v2_write_fails =
     \<lparr>files = map_of
        [([''sys'', ''fs'', ''cgroup'', ''kubepods.slice'', ''cpuset.cpus''], ''0-7'' @ [CHR 0x0A]),
         ([''sys'', ''fs'', ''cgroup'', ''kubepods.slice'', ''cpuset.cpus.exclusive''], ''4-5'' @ [CHR 0x0A]),
         ([''sys'', ''fs'', ''cgroup'', ''kubepods.slice'', ''pod1'', ''cpuset.cpus''], ''0-7'' @ [CHR 0x0A]),
         ([''sys'', ''fs'', ''cgroup'', ''kubepods.slice'', ''pod1'', ''cpuset.cpus.exclusive''], [CHR 0x0A]),
         ([''sys'', ''fs'', ''cgroup'', ''kubepods.slice'', ''pod1'', ''ctr1'', ''cpuset.cpus''], ''2-3'' @ [CHR 0x0A]),
         ([''sys'', ''fs'', ''cgroup'', ''kubepods.slice'', ''pod1'', ''ctr1'', ''cpuset.cpus.exclusive''], [CHR 0x0A])],
      oplog = [],
      rfault = (\<lambda>_. None),
      wfault = (\<lambda>k _. if k = [''sys'', ''fs'', ''cgroup'', ''kubepods.slice'', ''pod1'', ''ctr1'',
                                 ''cpuset.cpus.exclusive'']
                        then Some (SysErr ''invalid argument'') else None),
      dfault = (\<lambda>_. None)\<rparr>"

section \<open>Paths of the production directories\<close>

lemma strings_Split_nonempty: "strings_Split s c \<noteq> []"
  by (induction s) (auto split: list.splits)

lemma strings_Split_append_sep:
  "strings_Split (a @ c # b) c = strings_Split a c @ strings_Split b c"
  by (induction a) (auto split: list.splits simp: strings_Split_nonempty)

lemma strings_Split_nosep: "c \<notin> set s \<Longrightarrow> strings_Split s c = [s]"
  by (induction s) auto

lemma digit_char_in: "d < 10 \<Longrightarrow> digit_char d \<in> set ''0123456789''"
  unfolding digit_char_def by (rule nth_mem) simp

lemma digits_chars: "set (digits n) \<subseteq> set ''0123456789''"
proof (induction n rule: digits.induct)
  case (1 n)
  show ?case
  proof (cases "n < 10")
    case True
    then show ?thesis using digit_char_in[of n] by (subst digits.simps) simp
  next
    case False
    have "n mod 10 < 10" by simp
    then have "digit_char (n mod 10) \<in> set ''0123456789''" by (rule digit_char_in)
    with False 1 show ?thesis by (subst digits.simps) simp
  qed
qed

lemma Itoa_no_slash: "CHR ''/'' \<notin> set (strconv_Itoa i)"
  using digits_chars[of "nat i"] digits_chars[of "nat (- i)"]
  by (auto simp: strconv_Itoa_def)

lemmas path_simps = resolve_def strings_Split_append_sep strings_Split_nosep Itoa_no_slash
  sysCPUDir_def sysCPUSaveDir_def path_Join_def path_Clean_def

lemma resolve_latencyFile:
  "resolve (latencyFile_of sysCPUDir n) =
     [''sys'', ''devices'', ''system'', ''cpu'', ''cpu'' @ strconv_Itoa n, ''power'', ''pm_qos_resume_latency_us'']"
  by (simp add: path_simps latencyFile_of_def)

lemma resolve_governorFile:
  "resolve (governorFile_of sysCPUDir n) =
     [''sys'', ''devices'', ''system'', ''cpu'', ''cpu'' @ strconv_Itoa n, ''cpufreq'', ''scaling_governor'']"
  by (simp add: path_simps governorFile_of_def)

lemma resolve_latencyFileOrig:
  "resolve (latencyFileOrig_of sysCPUSaveDir n) =
     [''var'', ''run'', ''crio'', ''cpu'', ''cpu'' @ strconv_Itoa n, ''power'', ''pm_qos_resume_latency_us'']"
  by (simp add: path_simps latencyFileOrig_of_def cpuPowerSaveDir_of_def)

lemma resolve_governorFileOrig:
  "resolve (governorFileOrig_of sysCPUSaveDir n) =
     [''var'', ''run'', ''crio'', ''cpu'', ''cpu'' @ strconv_Itoa n, ''cpufreq'', ''scaling_governor'']"
  by (simp add: path_simps governorFileOrig_of_def cpuFreqSaveDir_of_def)

section \<open>Power knobs: the restore path\<close>

lemma os_ReadFile_missing:
  "files w (resolve p) = None \<Longrightarrow> rfault w (resolve p) = None \<Longrightarrow> os_ReadFile p w = Err ENOENT"
  by (simp add: os_ReadFile_def)

text \<open>
  When the restore loop has handled the CPUs of \<open>pre\<close> and then meets a CPU whose save
  file does not exist, it returns at once: no CPU after it is looked at.
\<close>

lemma pmqos_restore_prefix:
  "pmqos_loop [] d sd pre w = (r, w1) \<Longrightarrow>
   (r = Ok () \<longrightarrow> (\<exists>e. os_ReadFile (latencyFileOrig_of sd cpu) w1 = Err e \<and> errors_Is_ErrNotExist e)) \<Longrightarrow>
   pmqos_loop [] d sd (pre @ cpu # post) w = (r, w1)"
proof (induction pre arbitrary: w)
  case Nil
  then show ?case by auto
next
  case (Cons c pre)
  show ?case
  proof (cases "os_ReadFile (latencyFileOrig_of sd c) w")
    case rd: (Ok v)
    obtain r1 w2 where W: "os_WriteFile (latencyFile_of d c) v w = (r1, w2)" by force
    show ?thesis
    proof (cases r1)
      case r1: (Ok u)
      obtain r2 w3 where R: "os_Remove (latencyFileOrig_of sd c) w2 = (r2, w3)" by force
      show ?thesis
      proof (cases r2)
        case (Ok u2)
        with Cons.prems rd W R r1 have "pmqos_loop [] d sd pre w3 = (r, w1)" by simp
        from Cons.IH[OF this Cons.prems(2)] show ?thesis
          using rd W R r1 Ok by simp
      qed (use Cons.prems rd W R r1 in auto)
    qed (use Cons.prems rd W in auto)
  qed (use Cons.prems in \<open>auto split: if_splits\<close>)
qed

lemma governor_restore_prefix:
  "governor_loop [] d sd pre w = (r, w1) \<Longrightarrow>
   (r = Ok () \<longrightarrow> (\<exists>e. os_ReadFile (governorFileOrig_of sd cpu) w1 = Err e \<and> errors_Is_ErrNotExist e)) \<Longrightarrow>
   governor_loop [] d sd (pre @ cpu # post) w = (r, w1)"
proof (induction pre arbitrary: w)
  case Nil
  then show ?case by auto
next
  case (Cons c pre)
  show ?case
  proof (cases "os_ReadFile (governorFileOrig_of sd c) w")
    case rd: (Ok v)
    obtain r1 w2 where W: "os_WriteFile (governorFile_of d c) v w = (r1, w2)" by force
    show ?thesis
    proof (cases r1)
      case r1: (Ok u)
      obtain r2 w3 where R: "os_Remove (governorFileOrig_of sd c) w2 = (r2, w3)" by force
      show ?thesis
      proof (cases r2)
        case (Ok u2)
        with Cons.prems rd W R r1 have "governor_loop [] d sd pre w3 = (r, w1)" by simp
        from Cons.IH[OF this Cons.prems(2)] show ?thesis
          using rd W R r1 Ok by simp
      qed (use Cons.prems rd W R r1 in auto)
    qed (use Cons.prems rd W in auto)
  qed (use Cons.prems in \<open>auto split: if_splits\<close>)
qed

text \<open>
  Claim C9. In the restore path (empty value) of both power knobs, let the container's
  CPU list be \<open>pre @ cpu # post\<close>, let the CPUs of \<open>pre\<close> be restored without error,
  leaving the filesystem \<open>w1\<close>, and let the save file of \<open>cpu\<close> be missing there. Then the
  whole call returns success with the filesystem \<open>w1\<close>: the CPUs of \<open>post\<close> are never
  visited, so their live knobs are not restored and their save files are not deleted,
  whether or not those save files exist.
\<close>

theorem restore_returns_at_missing_save_file:
  assumes "container_cpus c = Some lc"
    and "cpuset_Parse (Cpus lc) = Ok (pre @ cpu # post)"
  shows "(pmqos_loop [] d sd pre w = (Ok (), w1)
            \<and> files w1 (resolve (latencyFileOrig_of sd cpu)) = None
            \<and> rfault w1 (resolve (latencyFileOrig_of sd cpu)) = None
          \<longrightarrow> doSetCPUPMQOSResumeLatency c [] d sd w = (Ok (), w1))
       \<and> (governor_loop [] d sd pre w = (Ok (), w1)
            \<and> files w1 (resolve (governorFileOrig_of sd cpu)) = None
            \<and> rfault w1 (resolve (governorFileOrig_of sd cpu)) = None
          \<longrightarrow> doSetCPUFreqGovernor c [] d sd w = (Ok (), w1))"
proof (intro conjI impI)
  assume H: "pmqos_loop [] d sd pre w = (Ok (), w1)
            \<and> files w1 (resolve (latencyFileOrig_of sd cpu)) = None
            \<and> rfault w1 (resolve (latencyFileOrig_of sd cpu)) = None"
  then have "os_ReadFile (latencyFileOrig_of sd cpu) w1 = Err ENOENT"
    by (simp add: os_ReadFile_missing)
  then have "pmqos_loop [] d sd (pre @ cpu # post) w = (Ok (), w1)"
    using H by (intro pmqos_restore_prefix) auto
  then show "doSetCPUPMQOSResumeLatency c [] d sd w = (Ok (), w1)"
    using assms by (simp add: doSetCPUPMQOSResumeLatency_def cpuset_List_def)
next
  assume H: "governor_loop [] d sd pre w = (Ok (), w1)
            \<and> files w1 (resolve (governorFileOrig_of sd cpu)) = None
            \<and> rfault w1 (resolve (governorFileOrig_of sd cpu)) = None"
  then have "os_ReadFile (governorFileOrig_of sd cpu) w1 = Err ENOENT"
    by (simp add: os_ReadFile_missing)
  then have "governor_loop [] d sd (pre @ cpu # post) w = (Ok (), w1)"
    using H by (intro governor_restore_prefix) auto
  then show "doSetCPUFreqGovernor c [] d sd w = (Ok (), w1)"
    using assms by (simp add: doSetCPUFreqGovernor_def cpuset_List_def)
qed

text \<open>
  The claim's own scenario: CPUs 1 and 2, no save file for CPU 1, save files for CPU 2.
  Both restore calls succeed and change nothing; the originals of CPU 2 stay saved and
  its live knobs keep the overriding values.
\<close>

theorem restore_returns_at_missing_save_file_witness:
  "doSetCPUPMQOSResumeLatency (mk_container ''1-2'' (Some 2048) (Some 100000)) [] sysCPUDir sysCPUSaveDir
       world_cpu2_saved = (Ok (), world_cpu2_saved)
   \<and> doSetCPUFreqGovernor (mk_container ''1-2'' (Some 2048) (Some 100000)) [] sysCPUDir sysCPUSaveDir
       world_cpu2_saved = (Ok (), world_cpu2_saved)
   \<and> files world_cpu2_saved (resolve (governorFileOrig_of sysCPUSaveDir 2)) = Some ''powersave''
   \<and> files world_cpu2_saved (resolve (governorFile_of sysCPUDir 2)) = Some ''performance''"
proof -
  have c: "container_cpus (mk_container ''1-2'' (Some 2048) (Some 100000))
             = Some \<lparr>Cpus = ''1-2'', Shares = Some 2048, Period = Some 100000\<rparr>"
    by (simp add: container_cpus_def mk_container_def)
  have p: "cpuset_Parse (Cpus \<lparr>Cpus = ''1-2'', Shares = Some (2048 :: 64 word), Period = Some (100000 :: 64 word)\<rparr>)
             = Ok ([] @ 1 # [2])"
    by code_simp
  have l: "files world_cpu2_saved (resolve (latencyFileOrig_of sysCPUSaveDir 1)) = None"
    by code_simp
  have g: "files world_cpu2_saved (resolve (governorFileOrig_of sysCPUSaveDir 1)) = None"
    by code_simp
  have rf: "rfault world_cpu2_saved = (\<lambda>_. None)"
    by (simp add: world_cpu2_saved_def mk_world_def)
  have s: "files world_cpu2_saved (resolve (governorFileOrig_of sysCPUSaveDir 2)) = Some ''powersave''"
    by code_simp
  have v: "files world_cpu2_saved (resolve (governorFile_of sysCPUDir 2)) = Some ''performance''"
    by code_simp
  show ?thesis
    using restore_returns_at_missing_save_file [OF c p, of sysCPUDir sysCPUSaveDir world_cpu2_saved world_cpu2_saved]
      l g rf s v
    by simp
qed

lemma os_WriteFile_frame:
  "os_WriteFile p v w = (r, w') \<Longrightarrow>
   rfault w' = rfault w \<and> wfault w' = wfault w \<and> dfault w' = dfault w
   \<and> (K \<noteq> resolve p \<longrightarrow> files w' K = files w K)"
  by (auto simp: os_WriteFile_def Let_def split: option.splits)

lemma os_Remove_frame:
  "os_Remove p w = (r, w') \<Longrightarrow>
   rfault w' = rfault w \<and> wfault w' = wfault w \<and> dfault w' = dfault w
   \<and> (files w K = None \<longrightarrow> files w' K = None)
   \<and> (r = Ok () \<longrightarrow> files w' (resolve p) = None)"
  by (auto simp: os_Remove_def Let_def split: option.splits)

lemma pmqos_restore_frame:
  "pmqos_loop [] d sd cs w = (r, w1) \<Longrightarrow>
   rfault w1 = rfault w
   \<and> (files w K = None \<longrightarrow> (\<forall>c\<in>set cs. resolve (latencyFile_of d c) \<noteq> K) \<longrightarrow> files w1 K = None)"
proof (induction cs arbitrary: w)
  case Nil
  then show ?case by auto
next
  case (Cons c cs)
  show ?case
  proof (cases "os_ReadFile (latencyFileOrig_of sd c) w")
    case rd: (Ok v)
    obtain r1 w2 where W: "os_WriteFile (latencyFile_of d c) v w = (r1, w2)" by force
    note Wf = os_WriteFile_frame[OF W, of K]
    show ?thesis
    proof (cases r1)
      case r1: (Ok u)
      obtain r2 w3 where R: "os_Remove (latencyFileOrig_of sd c) w2 = (r2, w3)" by force
      note Rf = os_Remove_frame[OF R, of K]
      show ?thesis
      proof (cases r2)
        case (Ok u2)
        with Cons.prems rd W R r1 have "pmqos_loop [] d sd cs w3 = (r, w1)" by simp
        from Cons.IH[OF this] show ?thesis
          using Wf Rf by auto
      qed (use Cons.prems rd W R r1 Wf Rf in auto)
    qed (use Cons.prems rd W Wf in auto)
  qed (use Cons.prems in \<open>auto split: if_splits\<close>)
qed

lemma pmqos_restore_twice:
  assumes "pmqos_loop [] d sd cs w = (Ok (), w1)"
    and sep: "\<forall>a\<in>set cs. \<forall>b\<in>set cs. resolve (latencyFile_of d a) \<noteq> resolve (latencyFileOrig_of sd b)"
  shows "pmqos_loop [] d sd cs w1 = (Ok (), w1)"
proof (cases cs)
  case Nil
  then show ?thesis by simp
next
  case (Cons c cs')
  show ?thesis
  proof (cases "os_ReadFile (latencyFileOrig_of sd c) w")
    case rd: (Ok v)
    then have rf: "rfault w (resolve (latencyFileOrig_of sd c)) = None"
      by (auto simp: os_ReadFile_def split: option.splits)
    obtain r1 w2 where W: "os_WriteFile (latencyFile_of d c) v w = (r1, w2)" by force
    note Wf = os_WriteFile_frame[OF W, of "resolve (latencyFileOrig_of sd c)"]
    show ?thesis
    proof (cases r1)
      case r1: (Ok u)
      obtain r2 w3 where R: "os_Remove (latencyFileOrig_of sd c) w2 = (r2, w3)" by force
      note Rf = os_Remove_frame[OF R, of "resolve (latencyFileOrig_of sd c)"]
      show ?thesis
      proof (cases r2)
        case (Ok u2)
        with assms(1) Cons rd W R r1 have L: "pmqos_loop [] d sd cs' w3 = (Ok (), w1)" by simp
        have "\<forall>a\<in>set cs'. resolve (latencyFile_of d a) \<noteq> resolve (latencyFileOrig_of sd c)"
          using sep Cons by auto
        with pmqos_restore_frame[OF L, of "resolve (latencyFileOrig_of sd c)"] Rf Ok Wf rf
        have "files w1 (resolve (latencyFileOrig_of sd c)) = None"
          and "rfault w1 (resolve (latencyFileOrig_of sd c)) = None" by auto
        then have "os_ReadFile (latencyFileOrig_of sd c) w1 = Err ENOENT"
          by (simp add: os_ReadFile_def)
        then show ?thesis using Cons by simp
      qed (use assms(1) Cons rd W R r1 in auto)
    qed (use assms(1) Cons rd W in auto)
  next
    case (Err e)
    with assms(1) Cons have "errors_Is_ErrNotExist e \<and> w1 = w" by (auto split: if_splits)
    with Err Cons show ?thesis by simp
  qed (use assms(1) Cons in auto)
qed

lemma governor_restore_frame:
  "governor_loop [] d sd cs w = (r, w1) \<Longrightarrow>
   rfault w1 = rfault w
   \<and> (files w K = None \<longrightarrow> (\<forall>c\<in>set cs. resolve (governorFile_of d c) \<noteq> K) \<longrightarrow> files w1 K = None)"
proof (induction cs arbitrary: w)
  case Nil
  then show ?case by auto
next
  case (Cons c cs)
  show ?case
  proof (cases "os_ReadFile (governorFileOrig_of sd c) w")
    case rd: (Ok v)
    obtain r1 w2 where W: "os_WriteFile (governorFile_of d c) v w = (r1, w2)" by force
    note Wf = os_WriteFile_frame[OF W, of K]
    show ?thesis
    proof (cases r1)
      case r1: (Ok u)
      obtain r2 w3 where R: "os_Remove (governorFileOrig_of sd c) w2 = (r2, w3)" by force
      note Rf = os_Remove_frame[OF R, of K]
      show ?thesis
      proof (cases r2)
        case (Ok u2)
        with Cons.prems rd W R r1 have "governor_loop [] d sd cs w3 = (r, w1)" by simp
        from Cons.IH[OF this] show ?thesis
          using Wf Rf by auto
      qed (use Cons.prems rd W R r1 Wf Rf in auto)
    qed (use Cons.prems rd W Wf in auto)
  qed (use Cons.prems in \<open>auto split: if_splits\<close>)
qed

lemma governor_restore_twice:
  assumes "governor_loop [] d sd cs w = (Ok (), w1)"
    and sep: "\<forall>a\<in>set cs. \<forall>b\<in>set cs. resolve (governorFile_of d a) \<noteq> resolve (governorFileOrig_of sd b)"
  shows "governor_loop [] d sd cs w1 = (Ok (), w1)"
proof (cases cs)
  case Nil
  then show ?thesis by simp
next
  case (Cons c cs')
  show ?thesis
  proof (cases "os_ReadFile (governorFileOrig_of sd c) w")
    case rd: (Ok v)
    then have rf: "rfault w (resolve (governorFileOrig_of sd c)) = None"
      by (auto simp: os_ReadFile_def split: option.splits)
    obtain r1 w2 where W: "os_WriteFile (governorFile_of d c) v w = (r1, w2)" by force
    note Wf = os_WriteFile_frame[OF W, of "resolve (governorFileOrig_of sd c)"]
    show ?thesis
    proof (cases r1)
      case r1: (Ok u)
      obtain r2 w3 where R: "os_Remove (governorFileOrig_of sd c) w2 = (r2, w3)" by force
      note Rf = os_Remove_frame[OF R, of "resolve (governorFileOrig_of sd c)"]
      show ?thesis
      proof (cases r2)
        case (Ok u2)
        with assms(1) Cons rd W R r1 have L: "governor_loop [] d sd cs' w3 = (Ok (), w1)" by simp
        have "\<forall>a\<in>set cs'. resolve (governorFile_of d a) \<noteq> resolve (governorFileOrig_of sd c)"
          using sep Cons by auto
        with governor_restore_frame[OF L, of "resolve (governorFileOrig_of sd c)"] Rf Ok Wf rf
        have "files w1 (resolve (governorFileOrig_of sd c)) = None"
          and "rfault w1 (resolve (governorFileOrig_of sd c)) = None" by auto
        then have "os_ReadFile (governorFileOrig_of sd c) w1 = Err ENOENT"
          by (simp add: os_ReadFile_def)
        then show ?thesis using Cons by simp
      qed (use assms(1) Cons rd W R r1 in auto)
    qed (use assms(1) Cons rd W in auto)
  next
    case (Err e)
    with assms(1) Cons have "errors_Is_ErrNotExist e \<and> w1 = w" by (auto split: if_splits)
    with Err Cons show ?thesis by simp
  qed (use assms(1) Cons in auto)
qed

text \<open>
  Claim C5. The restore path of both power knobs (\<open>setCPUFreqGovernor\<close> and
  \<open>setCPUPMQOSResumeLatency\<close> with an empty value) is idempotent. When no save file
  exists for the container's CPUs, the call returns success and leaves the filesystem
  as it was, log of attempted writes included. And whenever a restore call returns
  success, calling it again on the filesystem it left returns success and changes
  nothing: the second call performs no write.
\<close>

theorem power_knob_restore_idempotent:
  "(container_cpus c = Some lc \<and> cpuset_Parse (Cpus lc) = Ok cpus
      \<and> (\<forall>cpu\<in>set cpus. files w (resolve (governorFileOrig_of sysCPUSaveDir cpu)) = None
                          \<and> rfault w (resolve (governorFileOrig_of sysCPUSaveDir cpu)) = None)
      \<longrightarrow> setCPUFreqGovernor c [] w = (Ok (), w))
   \<and> (container_cpus c = Some lc \<and> cpuset_Parse (Cpus lc) = Ok cpus
      \<and> (\<forall>cpu\<in>set cpus. files w (resolve (latencyFileOrig_of sysCPUSaveDir cpu)) = None
                          \<and> rfault w (resolve (latencyFileOrig_of sysCPUSaveDir cpu)) = None)
      \<longrightarrow> setCPUPMQOSResumeLatency c [] w = (Ok (), w))
   \<and> (setCPUFreqGovernor c [] w = (Ok (), w1) \<longrightarrow> setCPUFreqGovernor c [] w1 = (Ok (), w1))
   \<and> (setCPUPMQOSResumeLatency c [] w = (Ok (), w1) \<longrightarrow> setCPUPMQOSResumeLatency c [] w1 = (Ok (), w1))"
proof (intro conjI impI)
  assume H: "container_cpus c = Some lc \<and> cpuset_Parse (Cpus lc) = Ok cpus
      \<and> (\<forall>cpu\<in>set cpus. files w (resolve (governorFileOrig_of sysCPUSaveDir cpu)) = None
                          \<and> rfault w (resolve (governorFileOrig_of sysCPUSaveDir cpu)) = None)"
  have "governor_loop [] sysCPUDir sysCPUSaveDir cpus w = (Ok (), w)"
  proof (cases cpus)
    case (Cons a as)
    with H have "os_ReadFile (governorFileOrig_of sysCPUSaveDir a) w = Err ENOENT"
      by (simp add: os_ReadFile_missing)
    with Cons show ?thesis by simp
  qed simp
  with H show "setCPUFreqGovernor c [] w = (Ok (), w)"
    by (simp add: setCPUFreqGovernor_def doSetCPUFreqGovernor_def cpuset_List_def)
next
  assume H: "container_cpus c = Some lc \<and> cpuset_Parse (Cpus lc) = Ok cpus
      \<and> (\<forall>cpu\<in>set cpus. files w (resolve (latencyFileOrig_of sysCPUSaveDir cpu)) = None
                          \<and> rfault w (resolve (latencyFileOrig_of sysCPUSaveDir cpu)) = None)"
  have "pmqos_loop [] sysCPUDir sysCPUSaveDir cpus w = (Ok (), w)"
  proof (cases cpus)
    case (Cons a as)
    with H have "os_ReadFile (latencyFileOrig_of sysCPUSaveDir a) w = Err ENOENT"
      by (simp add: os_ReadFile_missing)
    with Cons show ?thesis by simp
  qed simp
  with H show "setCPUPMQOSResumeLatency c [] w = (Ok (), w)"
    by (simp add: setCPUPMQOSResumeLatency_def doSetCPUPMQOSResumeLatency_def cpuset_List_def)
next
  assume H: "setCPUFreqGovernor c [] w = (Ok (), w1)"
  then obtain lc cpus where c: "container_cpus c = Some lc" "cpuset_Parse (Cpus lc) = Ok cpus"
    and L: "governor_loop [] sysCPUDir sysCPUSaveDir cpus w = (Ok (), w1)"
    by (auto simp: setCPUFreqGovernor_def doSetCPUFreqGovernor_def cpuset_List_def
        split: option.splits outcome.splits)
  have "governor_loop [] sysCPUDir sysCPUSaveDir cpus w1 = (Ok (), w1)"
    by (rule governor_restore_twice[OF L]) (simp add: resolve_governorFile resolve_governorFileOrig)
  with c show "setCPUFreqGovernor c [] w1 = (Ok (), w1)"
    by (simp add: setCPUFreqGovernor_def doSetCPUFreqGovernor_def cpuset_List_def)
next
  assume H: "setCPUPMQOSResumeLatency c [] w = (Ok (), w1)"
  then obtain lc cpus where c: "container_cpus c = Some lc" "cpuset_Parse (Cpus lc) = Ok cpus"
    and L: "pmqos_loop [] sysCPUDir sysCPUSaveDir cpus w = (Ok (), w1)"
    by (auto simp: setCPUPMQOSResumeLatency_def doSetCPUPMQOSResumeLatency_def cpuset_List_def
        split: option.splits outcome.splits)
  have "pmqos_loop [] sysCPUDir sysCPUSaveDir cpus w1 = (Ok (), w1)"
    by (rule pmqos_restore_twice[OF L]) (simp add: resolve_latencyFile resolve_latencyFileOrig)
  with c show "setCPUPMQOSResumeLatency c [] w1 = (Ok (), w1)"
    by (simp add: setCPUPMQOSResumeLatency_def doSetCPUPMQOSResumeLatency_def cpuset_List_def)
qed

text \<open>
  A container on CPU 1, which has no save file: the governor restore is a no-op. A
  container on CPU 2, which has one: the first restore writes the saved governor back
  and deletes the save file, the second changes nothing.
\<close>

theorem power_knob_restore_idempotent_witness:
  "setCPUFreqGovernor (mk_container ''1'' (Some 1024) (Some 100000)) [] world_cpu2_saved
     = (Ok (), world_cpu2_saved)
   \<and> fst (setCPUFreqGovernor (mk_container ''2'' (Some 1024) (Some 100000)) [] world_cpu2_saved) = Ok ()
   \<and> oplog (snd (setCPUFreqGovernor (mk_container ''2'' (Some 1024) (Some 100000)) [] world_cpu2_saved))
       = [OpWrite [''sys'', ''devices'', ''system'', ''cpu'', ''cpu2'', ''cpufreq'', ''scaling_governor''] ''powersave'',
          OpRemove [''var'', ''run'', ''crio'', ''cpu'', ''cpu2'', ''cpufreq'', ''scaling_governor'']]
   \<and> setCPUFreqGovernor (mk_container ''2'' (Some 1024) (Some 100000)) []
         (snd (setCPUFreqGovernor (mk_container ''2'' (Some 1024) (Some 100000)) [] world_cpu2_saved))
       = (Ok (), snd (setCPUFreqGovernor (mk_container ''2'' (Some 1024) (Some 100000)) [] world_cpu2_saved))"
proof -
  have c: "container_cpus (mk_container ''1'' (Some 1024) (Some 100000))
             = Some \<lparr>Cpus = ''1'', Shares = Some 1024, Period = Some 100000\<rparr>"
    by (simp add: container_cpus_def mk_container_def)
  have p: "cpuset_Parse (Cpus \<lparr>Cpus = ''1'', Shares = Some (1024 :: 64 word), Period = Some (100000 :: 64 word)\<rparr>)
             = Ok [1]"
    by code_simp
  have g: "files world_cpu2_saved (resolve (governorFileOrig_of sysCPUSaveDir 1)) = None"
    by code_simp
  have rf: "rfault world_cpu2_saved = (\<lambda>_. None)"
    by (simp add: world_cpu2_saved_def mk_world_def)
  have f: "fst (setCPUFreqGovernor (mk_container ''2'' (Some 1024) (Some 100000)) [] world_cpu2_saved) = Ok ()"
    by code_simp
  have l: "oplog (snd (setCPUFreqGovernor (mk_container ''2'' (Some 1024) (Some 100000)) [] world_cpu2_saved))
       = [OpWrite [''sys'', ''devices'', ''system'', ''cpu'', ''cpu2'', ''cpufreq'', ''scaling_governor''] ''powersave'',
          OpRemove [''var'', ''run'', ''crio'', ''cpu'', ''cpu2'', ''cpufreq'', ''scaling_governor'']]"
    by code_simp
  have e: "setCPUFreqGovernor (mk_container ''2'' (Some 1024) (Some 100000)) [] world_cpu2_saved
       = (Ok (), snd (setCPUFreqGovernor (mk_container ''2'' (Some 1024) (Some 100000)) [] world_cpu2_saved))"
    using f by (metis prod.collapse)
  show ?thesis
    using power_knob_restore_idempotent [of "mk_container ''1'' (Some 1024) (Some 100000)"
        "\<lparr>Cpus = ''1'', Shares = Some 1024, Period = Some 100000\<rparr>" "[1]" world_cpu2_saved world_cpu2_saved]
      power_knob_restore_idempotent [of "mk_container ''2'' (Some 1024) (Some 100000)" _ _ world_cpu2_saved
        "snd (setCPUFreqGovernor (mk_container ''2'' (Some 1024) (Some 100000)) [] world_cpu2_saved)"]
      c p g rf f l e
    by simp
qed

section \<open>The eligibility gate\<close>

text \<open>
  Claim C3. For every container whose pod cgroup parent contains \<open>burstable\<close> or
  \<open>besteffort\<close>, or whose CPU shares are not a multiple of 1024, \<open>PreStart\<close> and
  \<open>PreStop\<close> return nil at once: the container and the filesystem, with its log of
  attempted writes, are what they were, whatever the annotations, the node and the
  hook configuration are.
\<close>

theorem ineligible_container_hooks_do_nothing:
  assumes "strings_Contains (CgroupParent s) ''burstable''
           \<or> strings_Contains (CgroupParent s) ''besteffort''
           \<or> (\<exists>sh. spec_shares (Spec c) = Some sh \<and> sh mod 1024 \<noteq> 0)"
  shows "PreStart E h c s w = (Ok (), c, w) \<and> PreStop E h c s w = (Ok (), c, w)"
proof -
  have "isContainerRequestWholeCPU (Spec c) = Ok False"
    if sh: "spec_shares (Spec c) = Some sh" and nz: "sh mod 1024 \<noteq> 0" for sh
  proof -
    from sh obtain l r cpu where f: "Linux (Spec c) = Some l" "Resources l = Some r"
        "CPU r = Some cpu" "Shares cpu = Some sh"
      by (auto simp: spec_shares_def split: option.splits)
    have "isContainerRequestWholeCPU (Spec c) = Ok (sh mod 1024 = 0)"
      by (simp only: isContainerRequestWholeCPU_def f option.case)
    then show ?thesis by (simp only: nz)
  qed
  then have "shouldRunHooks (Spec c) s = Ok False"
    using assms
    by (auto simp: shouldRunHooks_def isCgroupParentBurstable_def isCgroupParentBestEffort_def)
  then show ?thesis by (simp add: PreStart_def PreStop_def)
qed

text \<open>
  CPU shares 1500 in a guaranteed pod that asks for every directive, and whole CPUs in a
  burstable pod: nothing is written.
\<close>

theorem ineligible_container_hooks_do_nothing_witness:
  "PreStart node_v2 hooks0 (mk_container ''2-3'' (Some 1500) (Some 100000))
       (sandbox_all ''/kubepods.slice/kubepods-pod7.slice'' ''enable'') world_cpu2_saved
     = (Ok (), mk_container ''2-3'' (Some 1500) (Some 100000), world_cpu2_saved)
   \<and> PreStop node_v2 hooks0 (mk_container ''2-3'' (Some 1500) (Some 100000))
       (sandbox_all ''/kubepods.slice/kubepods-pod7.slice'' ''enable'') world_cpu2_saved
     = (Ok (), mk_container ''2-3'' (Some 1500) (Some 100000), world_cpu2_saved)
   \<and> PreStart node_v2 hooks0 (mk_container ''2-3'' (Some 2048) (Some 100000))
       (sandbox_all ''/kubepods.slice/kubepods-burstable.slice/pod7'' ''enable'') world_cpu2_saved
     = (Ok (), mk_container ''2-3'' (Some 2048) (Some 100000), world_cpu2_saved)
   \<and> oplog world_cpu2_saved = []"
proof -
  have a: "spec_shares (Spec (mk_container ''2-3'' (Some 1500) (Some 100000))) = Some 1500"
    by (simp add: spec_shares_def mk_container_def)
  have b: "(1500 :: 64 word) mod 1024 \<noteq> 0" by simp
  have c: "strings_Contains (CgroupParent (sandbox_all ''/kubepods.slice/kubepods-burstable.slice/pod7'' ''enable''))
             ''burstable''"
    by code_simp
  have d: "oplog world_cpu2_saved = []"
    by (simp add: world_cpu2_saved_def mk_world_def)
  show ?thesis
    using ineligible_container_hooks_do_nothing [of
        "sandbox_all ''/kubepods.slice/kubepods-pod7.slice'' ''enable''"
        "mk_container ''2-3'' (Some 1500) (Some 100000)" node_v2 hooks0 world_cpu2_saved]
      ineligible_container_hooks_do_nothing [of
        "sandbox_all ''/kubepods.slice/kubepods-burstable.slice/pod7'' ''enable''"
        "mk_container ''2-3'' (Some 2048) (Some 100000)" node_v2 hooks0 world_cpu2_saved]
      a b c d
    by blast
qed

text \<open>
  Claim C8. When \<open>Linux\<close>, \<open>Linux.Resources\<close>, \<open>Linux.Resources.CPU\<close> or
  \<open>Linux.Resources.CPU.Shares\<close> of the container spec is nil and the pod is neither
  burstable nor best-effort, \<open>shouldRunHooks\<close> panics, and with it \<open>PreStart\<close> and
  \<open>PreStop\<close>: no error is returned. The controllers themselves guard the first three
  of these pointers: where one of them is nil, each controller returns an error.
\<close>

theorem nil_pointer_panics:
  assumes "shares_chain_has_nil (Spec c)"
    and "\<not> strings_Contains (CgroupParent s) ''burstable''"
    and "\<not> strings_Contains (CgroupParent s) ''besteffort''"
  shows "shouldRunHooks (Spec c) s = Panic
       \<and> PreStart E h c s w = (Panic, c, w)
       \<and> PreStop E h c s w = (Panic, c, w)
       \<and> (deref_Cpus c = None \<longrightarrow>
            setCPULoadBalancing E c enable w = (Err (Msg (''find container '' @ ID c @ '' CPUs'')), w)
          \<and> setIRQLoadBalancing E c enable f1 f2 w = (Err (Msg (''find container '' @ ID c @ '' CPUs'')), w)
          \<and> doSetCPUPMQOSResumeLatency c v d sd w = (Err (Msg (''find container '' @ ID c @ '' CPUs'')), w)
          \<and> doSetCPUFreqGovernor c v d sd w = (Err (Msg (''find container '' @ ID c @ '' CPUs'')), w)
          \<and> setSharedCPUs E c s sp w = (Err (Msg (''no cpus found for container '' @ Name c)), c, w))"
proof -
  have "isContainerRequestWholeCPU (Spec c) = Panic"
    using assms(1)
    by (auto simp: shares_chain_has_nil_def isContainerRequestWholeCPU_def split: option.splits)
  then have P: "shouldRunHooks (Spec c) s = Panic"
    using assms(2,3)
    by (simp add: shouldRunHooks_def isCgroupParentBurstable_def isCgroupParentBestEffort_def)
  have G: "deref_Cpus c = None \<Longrightarrow> container_cpus c = None"
    by (auto simp: deref_Cpus_def container_cpus_def split: option.splits)
  show ?thesis
    using P G
    by (auto simp: PreStart_def PreStop_def setCPULoadBalancing_def setIRQLoadBalancing_def
        doSetCPUPMQOSResumeLatency_def doSetCPUFreqGovernor_def setSharedCPUs_def)
qed

text \<open>Nil shares, and a spec with no \<open>Linux\<close> section, in a guaranteed pod.\<close>

theorem nil_pointer_panics_witness:
  "PreStart node_v2 hooks0 (mk_container ''2-3'' None (Some 100000))
       (sandbox_all ''/kubepods.slice/kubepods-pod7.slice'' ''enable'') world_cpu2_saved
     = (Panic, mk_container ''2-3'' None (Some 100000), world_cpu2_saved)
   \<and> PreStop node_v2 hooks0 container_no_linux
       (sandbox_all ''/kubepods.slice/kubepods-pod7.slice'' ''enable'') world_cpu2_saved
     = (Panic, container_no_linux, world_cpu2_saved)
   \<and> setCPULoadBalancing node_v2 container_no_linux False world_cpu2_saved
     = (Err (Msg (''find container '' @ ID container_no_linux @ '' CPUs'')), world_cpu2_saved)"
proof -
  have a: "shares_chain_has_nil (Spec (mk_container ''2-3'' None (Some 100000)))"
    by (simp add: shares_chain_has_nil_def mk_container_def)
  have b: "shares_chain_has_nil (Spec container_no_linux)"
    by (simp add: shares_chain_has_nil_def container_no_linux_def)
  have c: "\<not> strings_Contains (CgroupParent (sandbox_all ''/kubepods.slice/kubepods-pod7.slice'' ''enable''))
             ''burstable''"
    by code_simp
  have d: "\<not> strings_Contains (CgroupParent (sandbox_all ''/kubepods.slice/kubepods-pod7.slice'' ''enable''))
             ''besteffort''"
    by code_simp
  have e: "deref_Cpus container_no_linux = None"
    by (simp add: deref_Cpus_def container_no_linux_def)
  show ?thesis
    using nil_pointer_panics [OF a c d, of node_v2 hooks0 world_cpu2_saved]
      nil_pointer_panics [OF b c d, of node_v2 hooks0 world_cpu2_saved False] e
    by blast
qed

section \<open>Shared CPUs: the period pointer\<close>

text \<open>
  Claim C10, as stated, fails: a container with a CPU list that is not empty but does
  not parse, and a nil period, gets the parse error back (lines 805 to 809 return before
  the period is read at line 811); there is no panic.
\<close>

theorem setSharedCPUs_unparsable_cpus_returns_error:
  "container_cpus (mk_container ''x'' (Some 1024) None)
     = Some \<lparr>Cpus = ''x'', Shares = Some 1024, Period = None\<rparr>
   \<and> fst (setSharedCPUs node_v2 (mk_container ''x'' (Some 1024) None)
            (sandbox_all ''/kubepods.slice/kubepods-pod7.slice'' ''enable'') (Some [0, 1]) world_cpu2_saved)
     = Err (Msg ''strconv.Atoi: parsing x: invalid syntax'')"
proof -
  have a: "container_cpus (mk_container ''x'' (Some 1024) None)
     = Some \<lparr>Cpus = ''x'', Shares = Some 1024, Period = None\<rparr>"
    by (simp add: container_cpus_def mk_container_def)
  have b: "cpuset_Parse ''x'' = Err (Msg ''strconv.Atoi: parsing x: invalid syntax'')"
    by code_simp
  show ?thesis using a b by (simp add: setSharedCPUs_def)
qed

text \<open>
  Claim C10, amended. For every container whose CPU list is not empty and parses, and
  whose \<open>Period\<close> is nil, \<open>setSharedCPUs\<close> panics instead of returning an error,
  whatever the shared set, the pod and the node are; a missing or empty CPU list is
  checked and reported as an error.
\<close>

theorem setSharedCPUs_nil_period_panics:
  assumes "container_cpus c = Some cpu"
    and "cpuset_Parse (Cpus cpu) = Ok isolated"
    and "Period cpu = None"
  shows "setSharedCPUs E c s sp w = (Panic, c, w)
       \<and> (\<forall>c'. container_cpus c' = None \<longrightarrow>
             setSharedCPUs E c' s sp w = (Err (Msg (''no cpus found for container '' @ Name c')), c', w))"
  using assms by (auto simp: setSharedCPUs_def split: option.splits)

theorem setSharedCPUs_nil_period_panics_witness:
  "setSharedCPUs node_v2 (mk_container ''2-3'' (Some 2048) None)
       (sandbox_all ''/kubepods.slice/kubepods-pod7.slice'' ''enable'') (Some [0, 1]) world_cpu2_saved
     = (Panic, mk_container ''2-3'' (Some 2048) None, world_cpu2_saved)
   \<and> setSharedCPUs node_v2 container_no_linux
       (sandbox_all ''/kubepods.slice/kubepods-pod7.slice'' ''enable'') (Some [0, 1]) world_cpu2_saved
     = (Err (Msg (''no cpus found for container '' @ Name container_no_linux)), container_no_linux,
        world_cpu2_saved)"
proof -
  have a: "container_cpus (mk_container ''2-3'' (Some 2048) None)
     = Some \<lparr>Cpus = ''2-3'', Shares = Some 2048, Period = None\<rparr>"
    by (simp add: container_cpus_def mk_container_def)
  have b: "cpuset_Parse (Cpus \<lparr>Cpus = ''2-3'', Shares = Some (2048 :: 64 word), Period = (None :: 64 word option)\<rparr>)
     = Ok [2, 3]"
    by code_simp
  have c: "Period \<lparr>Cpus = ''2-3'', Shares = Some (2048 :: 64 word), Period = (None :: 64 word option)\<rparr> = None"
    by simp
  have d: "container_cpus container_no_linux = None"
    by (simp add: container_cpus_def container_no_linux_def)
  show ?thesis
    using setSharedCPUs_nil_period_panics [OF a b c, of node_v2
        "sandbox_all ''/kubepods.slice/kubepods-pod7.slice'' ''enable''" "Some [0, 1]" world_cpu2_saved] d
    by blast
qed

section \<open>Restoring the irqbalance configuration\<close>

text \<open>
  Claim C7. Whenever the affinity mask read from the proc file is not the all-bits-set
  default (the file is read, its content is a mask for \<open>mapHexCharToByte\<close>, and
  \<open>isAllBitSet\<close> says no), \<open>RestoreIrqBalanceConfig\<close> returns success and the
  filesystem is what it was, log of attempted writes included: the configuration is not
  rewritten, no backup file is made, the service is not restarted.
\<close>

theorem restore_irq_config_skips_when_mask_not_all_set:
  assumes "os_ReadFile procFile w = Ok content"
    and "mapHexCharToByte E (filter (\<lambda>ch. ch \<noteq> CHR '','') (strings_TrimSpace content)) = Ok maskArray"
    and "\<not> isAllBitSet E maskArray"
  shows "RestoreIrqBalanceConfig E cfg banned procFile w = (Ok (), w)"
  using assms by (simp add: RestoreIrqBalanceConfig_def)

theorem restore_irq_config_skips_when_mask_not_all_set_witness:
  "RestoreIrqBalanceConfig node_v2 ''/etc/sysconfig/irqbalance'' ''/etc/sysconfig/orig_irq_banned_cpus''
       IrqSmpAffinityProcFile world_irq_banned
     = (Ok (), world_irq_banned)
   \<and> files world_irq_banned (resolve ''/etc/sysconfig/orig_irq_banned_cpus'') = None"
proof -
  have a: "os_ReadFile IrqSmpAffinityProcFile world_irq_banned = Ok (''0f'' @ [CHR 0x0A])"
    by code_simp
  have b: "mapHexCharToByte node_v2
             (filter (\<lambda>ch. ch \<noteq> CHR '','') (strings_TrimSpace (''0f'' @ [CHR 0x0A]))) = Ok [0, 15]"
    by code_simp
  have c: "\<not> isAllBitSet node_v2 [0, 15]"
    by code_simp
  have d: "files world_irq_banned (resolve ''/etc/sysconfig/orig_irq_banned_cpus'') = None"
    by code_simp
  show ?thesis
    using restore_irq_config_skips_when_mask_not_all_set [OF a b c] d by blast
qed

section \<open>The c-states directive of PreStart\<close>



section \<open>Load balancing on cgroup v2: the partition write\<close>

text \<open>
  Claim C2, as stated, fails: with \<open>enable = true\<close> the write of
  \<open>cpuset.cpus.partition = isolated\<close> on the leaf directory is not skipped. Line 321 runs
  for both values of \<open>enable\<close>; on a container whose cgroup is still there, re-enabling
  ends with that very write.
\<close>

theorem reenable_still_writes_partition:
  "fst (setCPULoadBalancingV2 node_v2 (mk_container ''2-3'' (Some 2048) (Some 100000)) True cgroup_v2_isolated) = Ok ()
   \<and> last (oplog (snd (setCPULoadBalancingV2 node_v2 (mk_container ''2-3'' (Some 2048) (Some 100000)) True
                       cgroup_v2_isolated)))
     = OpWrite [''sys'', ''fs'', ''cgroup'', ''kubepods.slice'', ''pod1'', ''ctr1'', ''cpuset.cpus.partition'']
         ''isolated''"
  by code_simp

text \<open>
  Claim C2, amended. With \<open>enable = true\<close>, after all per-level removals succeed, the
  write of \<open>cpuset.cpus.partition = isolated\<close> on the leaf directory is still attempted;
  a "does not exist" error of that write is treated as success (and nothing is rolled
  back), any other error is returned after the rollback.
\<close>

theorem reenable_partition_write:
  assumes "deref_Cpus c = Some cpusStr"
    and "cpuset_Parse cpusStr = Ok cpus"
    and "cpusetOfContainer E c = Ok cpusetPath"
    and "v2_levels True cpus ''/sys/fs/cgroup'' (strings_Split cpusetPath (CHR ''/'')) [] w
           = (Ok (), valuesForRevert, w1)"
  shows "setCPULoadBalancingV2 E c True w =
           (case cgroups_WriteFile (path_Join [''/sys/fs/cgroup'', cpusetPath])
                   ''cpuset.cpus.partition'' ''isolated'' w1 of
              (Err e, w2) \<Rightarrow> if os_IsNotExist e then (Ok (), w2)
                              else (Err e, revert_values E valuesForRevert w2)
            | (r, w2) \<Rightarrow> (r, w2))"
  using assms
  by (auto simp: setCPULoadBalancingV2_def setCPULoadBalancingV2_body_def
      split: prod.splits outcome.splits)

text \<open>The partition file of the container is gone: re-enabling succeeds.\<close>

theorem reenable_partition_write_witness:
  "setCPULoadBalancingV2 node_v2 (mk_container ''2-3'' (Some 2048) (Some 100000)) True cgroup_v2_torn_down
     = (case cgroups_WriteFile (path_Join [''/sys/fs/cgroup'', ''/kubepods.slice/pod1/ctr1''])
               ''cpuset.cpus.partition'' ''isolated''
               (snd (snd (v2_levels True [2, 3] ''/sys/fs/cgroup''
                            (strings_Split ''/kubepods.slice/pod1/ctr1'' (CHR ''/'')) [] cgroup_v2_torn_down))) of
          (Err e, w2) \<Rightarrow>
            if os_IsNotExist e then (Ok (), w2)
            else (Err e, revert_values node_v2
                   (fst (snd (v2_levels True [2, 3] ''/sys/fs/cgroup''
                            (strings_Split ''/kubepods.slice/pod1/ctr1'' (CHR ''/'')) [] cgroup_v2_torn_down))) w2)
        | (r, w2) \<Rightarrow> (r, w2))
   \<and> fst (setCPULoadBalancingV2 node_v2 (mk_container ''2-3'' (Some 2048) (Some 100000)) True
            cgroup_v2_torn_down) = Ok ()
   \<and> files cgroup_v2_torn_down
        [''sys'', ''fs'', ''cgroup'', ''kubepods.slice'', ''pod1'', ''ctr1'', ''cpuset.cpus.partition''] = None"
proof -
  have a: "deref_Cpus (mk_container ''2-3'' (Some 2048) (Some 100000)) = Some ''2-3''"
    by (simp add: deref_Cpus_def mk_container_def)
  have b: "cpuset_Parse ''2-3'' = Ok [2, 3]"
    by code_simp
  have c: "cpusetOfContainer node_v2 (mk_container ''2-3'' (Some 2048) (Some 100000))
             = Ok ''/kubepods.slice/pod1/ctr1''"
    by code_simp
  have "fst (v2_levels True [2, 3] ''/sys/fs/cgroup''
               (strings_Split ''/kubepods.slice/pod1/ctr1'' (CHR ''/'')) [] cgroup_v2_torn_down) = Ok ()"
    by code_simp
  then have d: "v2_levels True [2, 3] ''/sys/fs/cgroup''
               (strings_Split ''/kubepods.slice/pod1/ctr1'' (CHR ''/'')) [] cgroup_v2_torn_down
       = (Ok (),
          fst (snd (v2_levels True [2, 3] ''/sys/fs/cgroup''
                 (strings_Split ''/kubepods.slice/pod1/ctr1'' (CHR ''/'')) [] cgroup_v2_torn_down)),
          snd (snd (v2_levels True [2, 3] ''/sys/fs/cgroup''
                 (strings_Split ''/kubepods.slice/pod1/ctr1'' (CHR ''/'')) [] cgroup_v2_torn_down)))"
    by (metis prod.collapse)
  have e: "fst (setCPULoadBalancingV2 node_v2 (mk_container ''2-3'' (Some 2048) (Some 100000)) True
            cgroup_v2_torn_down) = Ok ()"
    by code_simp
  have f: "files cgroup_v2_torn_down
        [''sys'', ''fs'', ''cgroup'', ''kubepods.slice'', ''pod1'', ''ctr1'', ''cpuset.cpus.partition''] = None"
    by code_simp
  show ?thesis
    using reenable_partition_write [OF a b c d] e f by blast
qed

section \<open>Shared CPUs: the CFS quota\<close>

text \<open>
  Claim C4, as stated, fails: the quota is computed in 64-bit signed arithmetic, and for
  the period \<open>10^16\<close> (a value of the spec's \<open>uint64\<close> field) the product
  \<open>4000 * 10^16\<close> wraps around, so the quota of a union of four CPUs is not four times
  the period.
\<close>

theorem cfs_quota_overflows:
  "calculateCFSQuota (cpuset_Union [2, 3] [0, 1]) (sint (10000000000000000 :: 64 word)) = Ok 3106511852580896
   \<and> (3106511852580896 :: int) \<noteq> int (length (cpuset_Union [2, 3] [0, 1])) * sint (10000000000000000 :: 64 word)"
  by code_simp

lemma wrap_int64_id: "- (2 ^ 63) \<le> x \<Longrightarrow> x < 2 ^ 63 \<Longrightarrow> wrap_int64 x = x"
  by (simp add: wrap_int64_def)

lemma quot_int64_mult: "quot_int64 (n * 1000 * p) 1000 = n * p"
proof -
  have "\<bar>n * 1000 * p\<bar> div 1000 = \<bar>n * p\<bar>"
    by (simp add: abs_mult)
  moreover have "sgn (n * 1000 * p) = sgn (n * p)"
    by (simp add: sgn_mult)
  ultimately show ?thesis
    by (simp add: quot_int64_def mult_sgn_abs)
qed

lemma calculateCFSQuota_exact:
  assumes "int (length cpus) * 1000 * \<bar>period\<bar> < 2 ^ 63"
  shows "calculateCFSQuota cpus period = Ok (int (length cpus) * period)"
proof -
  let ?x = "int (length cpus) * 1000 * period"
  have "\<bar>?x\<bar> = int (length cpus) * 1000 * \<bar>period\<bar>"
    by (simp add: abs_mult)
  with assms have "\<bar>?x\<bar> < 2 ^ 63" by simp
  then have "- (2 ^ 63) \<le> ?x" "?x < 2 ^ 63" by linarith+
  then have "wrap_int64 ?x = ?x" by (rule wrap_int64_id)
  then show ?thesis
    by (simp add: calculateCFSQuota_def Quantity_MilliValue_def cpuset_Size_def milliCPUToCPU_def
        quot_int64_mult)
qed


lemma cgroups_WriteFile_log:
  "cgroups_WriteFile dir file d w = (r, w') \<Longrightarrow>
   set (oplog w) \<subseteq> set (oplog w')
   \<and> (r = Ok () \<longrightarrow> OpWrite (resolve (dir @ ''/'' @ file)) d \<in> set (oplog w'))"
  by (auto simp: cgroups_WriteFile_def Let_def split: if_splits option.splits)

lemma addOrRemoveCpusetFromFile_log:
  "addOrRemoveCpusetFromFile path file cpus add w = (r, w') \<Longrightarrow> set (oplog w) \<subseteq> set (oplog w')"
proof -
  assume A: "addOrRemoveCpusetFromFile path file cpus add w = (r, w')"
  show ?thesis
  proof (cases "cgroups_ReadFile path file w")
    case (Ok cur)
    show ?thesis
    proof (cases "cpuset_Parse (strings_TrimSpace cur)")
      case p: (Ok cc)
      obtain r1 w1 where W: "cgroups_WriteFile path file
          (cpuset_String (if add then cpuset_Union cc cpus else cpuset_Difference cc cpus)) w = (r1, w1)"
        by force
      with A Ok p have "w' = w1"
        by (auto simp: addOrRemoveCpusetFromFile_def Let_def split: outcome.splits)
      with cgroups_WriteFile_log[OF W] show ?thesis by simp
    qed (use A Ok in \<open>auto simp: addOrRemoveCpusetFromFile_def\<close>)
  qed (use A in \<open>auto simp: addOrRemoveCpusetFromFile_def\<close>)
qed

lemma os_Mkdir_log:
  "os_Mkdir E p w = (r, w') \<Longrightarrow> set (oplog w) \<subseteq> set (oplog w')"
  by (auto simp: os_Mkdir_def Let_def split: option.splits)

lemma isolate_in_child_log:
  assumes "isolate_in_child E g isoCPUs w = (r, w')"
  shows "set (oplog w) \<subseteq> set (oplog w')"
proof -
  obtain r1 w1 where 1: "cgroups_WriteFile g cgroupSubTreeControl ''+cpu +cpuset'' w = (r1, w1)" by force
  obtain r2 w2 where 2: "cgroups_WriteFile g cpusetPartition ''member'' w1 = (r2, w2)" by force
  obtain r3 w3 where 3: "os_Mkdir E (path_Join [g, ''cgroup-child'']) w2 = (r3, w3)" by force
  obtain r4 w4 where 4: "cgroups_WriteFile (path_Join [g, ''cgroup-child'']) cpusetCpus (cpuset_String isoCPUs) w3 = (r4, w4)" by force
  obtain r5 w5 where 5: "cgroups_WriteFile (path_Join [g, ''cgroup-child'']) cpusetExclusive (cpuset_String isoCPUs) w4 = (r5, w5)" by force
  obtain r6 w6 where 6: "cgroups_WriteFile (path_Join [g, ''cgroup-child'']) cpusetPartition ''isolated'' w5 = (r6, w6)" by force
  have s1: "set (oplog w) \<subseteq> set (oplog w1)" using cgroups_WriteFile_log[OF 1] by blast
  have s2: "set (oplog w) \<subseteq> set (oplog w2)" using s1 cgroups_WriteFile_log[OF 2] by blast
  have s3: "set (oplog w) \<subseteq> set (oplog w3)" using s2 os_Mkdir_log[OF 3] by blast
  have s4: "set (oplog w) \<subseteq> set (oplog w4)" using s3 cgroups_WriteFile_log[OF 4] by blast
  have s5: "set (oplog w) \<subseteq> set (oplog w5)" using s4 cgroups_WriteFile_log[OF 5] by blast
  have s6: "set (oplog w) \<subseteq> set (oplog w6)" using s5 cgroups_WriteFile_log[OF 6] by blast
  have "w' = w1 \<or> w' = w2 \<or> w' = w3 \<or> w' = w4 \<or> w' = w5 \<or> w' = w6"
    using assms 1 2 3 4 5 6
    by (auto simp: isolate_in_child_def Let_def split: outcome.splits)
  with s1 s2 s3 s4 s5 s6 show ?thesis by blast
qed

lemma apply_shared_cpus_log:
  assumes "apply_shared_cpus E s ch shared isoCPUs quota w = (Ok (), w')"
  shows "OpWrite (resolve (GetAbsoluteControllerPodPath ch ''cpuacct'' @ ''/'' @ quotaFile E))
           (strconv_Itoa quota) \<in> set (oplog w')
       \<and> OpWrite (resolve (GetAbsoluteControllerContainerPath ch ''cpuacct'' @ ''/'' @ quotaFile E))
           (strconv_Itoa quota) \<in> set (oplog w')"
proof -
  let ?q = "strconv_Itoa quota"
  obtain r1 w1 where 1: "addOrRemoveCpusetFromFile (GetAbsoluteControllerPodPath ch ''cpuset'') cpusetCpus shared True w = (r1, w1)" by force
  obtain r2 w2 where 2: "cgroups_WriteFile (GetAbsoluteControllerPodPath ch ''cpuacct'') (quotaFile E) ?q w1 = (r2, w2)" by force
  obtain r3 w3 where 3: "addOrRemoveCpusetFromFile (GetAbsoluteControllerContainerPath ch ''cpuset'') cpusetCpus shared True w2 = (r3, w3)" by force
  obtain r4 w4 where 4: "cgroups_WriteFile (GetAbsoluteControllerContainerPath ch ''cpuacct'') (quotaFile E) ?q w3 = (r4, w4)" by force
  obtain r5 w5 where 5: "isolate_in_child E (GetAbsoluteControllerContainerPath ch ''cpuset'') isoCPUs w4 = (r5, w5)" by force
  have ok: "r2 = Ok () \<and> r4 = Ok () \<and> (w' = w4 \<or> w' = w5)"
    using assms 1 2 3 4 5
    by (auto simp: apply_shared_cpus_def Let_def split: outcome.splits if_splits)
  have p2: "OpWrite (resolve (GetAbsoluteControllerPodPath ch ''cpuacct'' @ ''/'' @ quotaFile E)) ?q
              \<in> set (oplog w2)"
    using ok cgroups_WriteFile_log[OF 2] by blast
  have p3: "set (oplog w2) \<subseteq> set (oplog w3)" by (rule addOrRemoveCpusetFromFile_log[OF 3])
  have p4: "set (oplog w3) \<subseteq> set (oplog w4)" using cgroups_WriteFile_log[OF 4] by blast
  have c4: "OpWrite (resolve (GetAbsoluteControllerContainerPath ch ''cpuacct'' @ ''/'' @ quotaFile E)) ?q
              \<in> set (oplog w4)"
    using ok cgroups_WriteFile_log[OF 4] by blast
  have p5: "set (oplog w4) \<subseteq> set (oplog w5)" by (rule isolate_in_child_log[OF 5])
  from ok p2 p3 p4 c4 p5 show ?thesis by blast
qed

text \<open>
  Claim C4, amended. For every cpuset and period whose product \<open>size * 1000 * period\<close>
  fits a signed 64-bit integer, the quota that \<open>setSharedCPUs\<close> computes for the union of
  the isolated and the shared CPUs is \<open>size * period\<close>; and when \<open>setSharedCPUs\<close>
  succeeds, the decimal text of that value was written to the quota file of the node's
  cgroup version (\<open>cpu.max\<close> or \<open>cpu.cfs_quota_us\<close>) at the pod's and at the
  container's cgroup.
\<close>

theorem shared_cpus_quota:
  assumes "container_cpus c = Some cpu"
    and "cpuset_Parse (Cpus cpu) = Ok isolated"
    and "Period cpu = Some period"
    and "int (length (cpuset_Union isolated shared)) * 1000 * \<bar>sint period\<bar> < 2 ^ 63"
    and "Pid c = Ok pid"
    and "CgroupBuildHierarchyFrom E pid = Ok ch"
    and "setSharedCPUs E c s (Some shared) w = (Ok (), c', w')"
  shows "calculateCFSQuota (cpuset_Union isolated shared) (sint period)
           = Ok (int (length (cpuset_Union isolated shared)) * sint period)
       \<and> OpWrite (resolve (GetAbsoluteControllerPodPath ch ''cpuacct'' @ ''/'' @ quotaFile E))
           (strconv_Itoa (int (length (cpuset_Union isolated shared)) * sint period)) \<in> set (oplog w')
       \<and> OpWrite (resolve (GetAbsoluteControllerContainerPath ch ''cpuacct'' @ ''/'' @ quotaFile E))
           (strconv_Itoa (int (length (cpuset_Union isolated shared)) * sint period)) \<in> set (oplog w')"
proof -
  let ?q = "int (length (cpuset_Union isolated shared)) * sint period"
  have Q: "calculateCFSQuota (cpuset_Union isolated shared) (sint period) = Ok ?q"
    using assms(4) by (rule calculateCFSQuota_exact)
  have "apply_shared_cpus E s ch shared isolated ?q w = (Ok (), w')"
    using assms(1,2,3,5,6,7) Q
    by (auto simp: setSharedCPUs_def Let_def split: prod.splits outcome.splits)
  from apply_shared_cpus_log[OF this] Q show ?thesis by simp
qed

text \<open>
  Isolated CPUs 2 and 3, shared CPUs 0 and 1, period 100000: the quota is 400000, and
  \<open>400000\<close> is what is written to \<open>cpu.max\<close> of the pod and of the container.
\<close>

text \<open>The definitions that the simplifier unfolds to run the shared-CPU code on a concrete filesystem.\<close>

lemmas eval_defs =
  apply_shared_cpus_def addOrRemoveCpusetFromFile_def cgroups_ReadFile_def cgroups_WriteFile_def
  os_ReadFile_def resolve_def cgroup_v2_quota_def cgroup_v2_files_def mk_world_def
  cpusetCpus_def quotaFile_def cgroupV2Quota_def node_v2_def sandbox_shared_def
  shouldCPULoadBalancingBeDisabled_def map_index_def annotationTrue_def annotationDisable_def
  strings_TrimSpace_def is_space_def cpuset_Union_def NewCPUSet_def cpuset_String_def cpuset_List_def
  range_str_def strconv_Itoa_def digits.simps digit_char_def
  cpuset_Parse_def parse_range_def split_first_dash_def strconv_Atoi_def atoi_unsigned_def
  is_digit_def digits_val_def digit_val_def Let_def

theorem shared_cpus_quota_witness:
  "calculateCFSQuota (cpuset_Union [2, 3] [0, 1]) (sint (100000 :: 64 word)) = Ok 400000
   \<and> OpWrite [''sys'', ''fs'', ''cgroup'', ''kubepods.slice'', ''pod1'', ''cpu.max''] ''400000''
       \<in> set (oplog (snd (snd (setSharedCPUs node_v2 (mk_container ''2-3'' (Some 2048) (Some 100000))
                                  sandbox_shared (Some [0, 1]) cgroup_v2_quota))))
   \<and> OpWrite [''sys'', ''fs'', ''cgroup'', ''kubepods.slice'', ''pod1'', ''ctr1'', ''cpu.max''] ''400000''
       \<in> set (oplog (snd (snd (setSharedCPUs node_v2 (mk_container ''2-3'' (Some 2048) (Some 100000))
                                  sandbox_shared (Some [0, 1]) cgroup_v2_quota))))"
proof -
  let ?c = "mk_container ''2-3'' (Some 2048) (Some 100000)"
  let ?ch = "\<lparr>GetAbsoluteControllerPodPath = (\<lambda>_. ''/sys/fs/cgroup/kubepods.slice/pod1''),
              GetAbsoluteControllerContainerPath = (\<lambda>_. ''/sys/fs/cgroup/kubepods.slice/pod1/ctr1'')\<rparr>"
  let ?run = "setSharedCPUs node_v2 ?c sandbox_shared (Some [0, 1]) cgroup_v2_quota"
  have a: "container_cpus ?c = Some \<lparr>Cpus = ''2-3'', Shares = Some 2048, Period = Some 100000\<rparr>"
    by (simp add: container_cpus_def mk_container_def)
  have b: "cpuset_Parse (Cpus \<lparr>Cpus = ''2-3'', Shares = Some (2048 :: 64 word), Period = Some (100000 :: 64 word)\<rparr>)
             = Ok [2, 3]"
    by code_simp
  have c: "Period \<lparr>Cpus = ''2-3'', Shares = Some (2048 :: 64 word), Period = Some (100000 :: 64 word)\<rparr>
             = Some 100000"
    by simp
  have n: "int (length (cpuset_Union [2, 3] [0, 1])) = 4"
    by code_simp
  have d: "int (length (cpuset_Union [2, 3] [0, 1])) * 1000 * \<bar>sint (100000 :: 64 word)\<bar> < 2 ^ 63"
    by (simp add: n)
  have e: "Pid ?c = Ok 4242"
    by (simp add: mk_container_def)
  have f: "CgroupBuildHierarchyFrom node_v2 4242 = Ok ?ch"
    by (simp add: node_v2_def)
  have "fst ?run = Ok ()"
    by (simp add: setSharedCPUs_def container_cpus_def mk_container_def calculateCFSQuota_def
        Quantity_MilliValue_def cpuset_Size_def milliCPUToCPU_def wrap_int64_def quot_int64_def
        injectCpusetEnv_def eval_defs)
  then have g: "?run = (Ok (), fst (snd ?run), snd (snd ?run))"
    by (metis prod.collapse)
  have k1: "resolve (GetAbsoluteControllerPodPath ?ch ''cpuacct'' @ ''/'' @ quotaFile node_v2)
              = [''sys'', ''fs'', ''cgroup'', ''kubepods.slice'', ''pod1'', ''cpu.max'']"
    by (simp add: eval_defs)
  have k2: "resolve (GetAbsoluteControllerContainerPath ?ch ''cpuacct'' @ ''/'' @ quotaFile node_v2)
              = [''sys'', ''fs'', ''cgroup'', ''kubepods.slice'', ''pod1'', ''ctr1'', ''cpu.max'']"
    by (simp add: eval_defs)
  have q: "strconv_Itoa (int (length (cpuset_Union [2, 3] [0, 1])) * sint (100000 :: 64 word)) = ''400000''"
    unfolding n by (simp add: eval_defs)
  have v: "int (length (cpuset_Union [2, 3] [0, 1])) * sint (100000 :: 64 word) = 400000"
    by (simp add: n)
  have r: "calculateCFSQuota (cpuset_Union [2, 3] [0, 1]) (sint (100000 :: 64 word)) = Ok 400000"
    using shared_cpus_quota [OF a b c d e f g] v by simp
  have w1: "OpWrite [''sys'', ''fs'', ''cgroup'', ''kubepods.slice'', ''pod1'', ''cpu.max''] ''400000''
       \<in> set (oplog (snd (snd ?run)))"
    using shared_cpus_quota [OF a b c d e f g] unfolding k1 q by blast
  have w2: "OpWrite [''sys'', ''fs'', ''cgroup'', ''kubepods.slice'', ''pod1'', ''ctr1'', ''cpu.max''] ''400000''
       \<in> set (oplog (snd (snd ?run)))"
    using shared_cpus_quota [OF a b c d e f g] unfolding k2 q by blast
  show ?thesis
    using r w1 w2 by blast
qed


end
